theory Spec2Isabelle
  imports Complex_Main
begin

section \<open>IEEE double precision values (the type \<^verbatim>\<open>R\<close>)\<close>

text \<open>
  Modelled from the spec: the header that declares \<^verbatim>\<open>R\<close>, \<^verbatim>\<open>cmplx\<close>, \<^verbatim>\<open>CNUM\<close>,
  \<^verbatim>\<open>Inf\<close> and \<^verbatim>\<open>NaN\<close> is not part of the sources at hand; the specification fixes
  \<^verbatim>\<open>R\<close> as an IEEE double that may hold the two infinities and NaN and that
  distinguishes the two zeros, and a complex value as an ordered pair of two such scalars.

  A double is NaN, an infinity with its sign bit, or a finite value given by its sign bit
  (\<open>True\<close> is negative) and its magnitude, a rational number.  The two zeros are
  \<open>Fin False 0\<close> and \<open>Fin True 0\<close>.  There is one NaN: its sign and payload are not
  represented.

  Every arithmetic operation is rounded once, to nearest with ties to even, in the binary
  format with 53 significant bits and exponents from \<open>-1022\<close> to \<open>1023\<close>: no wider
  intermediate format and no fused multiplication and addition.
\<close>

datatype dbl = NaN | Infty bool | Fin bool rat

type_synonym cmplx = "dbl \<times> dbl"

subsection \<open>Rounding to nearest, ties to even\<close>

text \<open>Number of binary digits of a positive integer.\<close>

function blen :: "int \<Rightarrow> int" where
  "blen n = (if n \<le> 0 then 0 else 1 + blen (n div 2))"
  by pat_completeness auto
termination
  by (relation "measure nat") auto

declare blen.simps [simp del]

definition pow2 :: "int \<Rightarrow> rat" where
  "pow2 e = (if 0 \<le> e then 2 ^ nat e else 1 / 2 ^ nat (- e))"

text \<open>The binary exponent of a positive rational: \<open>pow2 (flog2 q) \<le> q < pow2 (flog2 q + 1)\<close>.\<close>

definition flog2 :: "rat \<Rightarrow> int" where
  "flog2 q = (if 1 \<le> q then blen \<lfloor>q\<rfloor> - 1 else - blen (\<lceil>1 / q\<rceil> - 1))"

text \<open>The integer nearest to \<open>n\<close>; a halfway case goes to the even neighbour.\<close>

definition round_int :: "rat \<Rightarrow> int" where
  "round_int n =
     (let f = \<lfloor>n\<rfloor>;
          r = n - of_int f
      in if r < 1 / 2 then f
         else if 1 / 2 < r then f + 1
         else if even f then f else f + 1)"

text \<open>
  The exponent of the unit in the last place of a positive magnitude: 53 significant
  bits, and the spacing of the subnormal numbers below \<open>2 ^ -1022\<close>.
\<close>

definition ulp_exp :: "rat \<Rightarrow> int" where
  "ulp_exp q = max (flog2 q) (- 1022) - 52"

text \<open>The magnitude \<open>q \<ge> 0\<close> rounded to a multiple of its unit in the last place.\<close>

definition round_mag :: "rat \<Rightarrow> rat" where
  "round_mag q =
     (if q = 0 then 0
      else of_int (round_int (q / pow2 (ulp_exp q))) * pow2 (ulp_exp q))"

text \<open>The rounded result with its sign; a magnitude that rounds to \<open>2 ^ 1024\<close> overflows.\<close>

definition round_sm :: "bool \<Rightarrow> rat \<Rightarrow> dbl" where
  "round_sm s q = (let r = round_mag \<bar>q\<bar> in if 2 ^ 1024 \<le> r then Infty s else Fin s r)"

text \<open>
  A non-negative constant of the program text: a decimal literal is rounded to the nearest
  double, an integer constant is converted (exactly, for the small integers that occur).
  Negative constants are written with the unary minus, as in the source.
\<close>

definition lit :: "rat \<Rightarrow> dbl" where
  "lit q = round_sm False q"

subsection \<open>Arithmetic and comparisons\<close>

fun valof :: "dbl \<Rightarrow> rat" where
  "valof (Fin s m) = (if s then - \<bar>m\<bar> else \<bar>m\<bar>)"
| "valof _ = 0"

fun is_nan :: "dbl \<Rightarrow> bool" where
  "is_nan NaN = True"
| "is_nan _ = False"

fun is_zero :: "dbl \<Rightarrow> bool" where
  "is_zero (Fin s m) = (m = 0)"
| "is_zero _ = False"

fun fneg :: "dbl \<Rightarrow> dbl" where
  "fneg NaN = NaN"
| "fneg (Infty s) = Infty (\<not> s)"
| "fneg (Fin s m) = Fin (\<not> s) m"

fun pnfft_fabs :: "dbl \<Rightarrow> dbl" where
  "pnfft_fabs NaN = NaN"
| "pnfft_fabs (Infty s) = Infty False"
| "pnfft_fabs (Fin s m) = Fin False m"

fun fadd :: "dbl \<Rightarrow> dbl \<Rightarrow> dbl" where
  "fadd NaN _ = NaN"
| "fadd _ NaN = NaN"
| "fadd (Infty s) (Infty t) = (if s = t then Infty s else NaN)"
| "fadd (Infty s) (Fin t n) = Infty s"
| "fadd (Fin s m) (Infty t) = Infty t"
| "fadd (Fin s m) (Fin t n) =
     (let v = valof (Fin s m) + valof (Fin t n)
      in if v = 0 then Fin (s \<and> t) 0 else round_sm (v < 0) v)"

definition fsub :: "dbl \<Rightarrow> dbl \<Rightarrow> dbl" where
  "fsub a b = fadd a (fneg b)"

fun fmul :: "dbl \<Rightarrow> dbl \<Rightarrow> dbl" where
  "fmul NaN _ = NaN"
| "fmul _ NaN = NaN"
| "fmul (Infty s) (Infty t) = Infty (s \<noteq> t)"
| "fmul (Infty s) (Fin t n) = (if n = 0 then NaN else Infty (s \<noteq> t))"
| "fmul (Fin s m) (Infty t) = (if m = 0 then NaN else Infty (s \<noteq> t))"
| "fmul (Fin s m) (Fin t n) = round_sm (s \<noteq> t) (m * n)"

fun fdiv :: "dbl \<Rightarrow> dbl \<Rightarrow> dbl" where
  "fdiv NaN _ = NaN"
| "fdiv _ NaN = NaN"
| "fdiv (Infty s) (Infty t) = NaN"
| "fdiv (Infty s) (Fin t n) = Infty (s \<noteq> t)"
| "fdiv (Fin s m) (Infty t) = Fin (s \<noteq> t) 0"
| "fdiv (Fin s m) (Fin t n) =
     (if n = 0 then (if m = 0 then NaN else Infty (s \<noteq> t))
      else round_sm (s \<noteq> t) (m / n))"

text \<open>The comparisons \<^verbatim>\<open><\<close>, \<^verbatim>\<open><=\<close>, \<^verbatim>\<open>==\<close>: false as soon as an operand is NaN.\<close>

fun flt :: "dbl \<Rightarrow> dbl \<Rightarrow> bool" where
  "flt NaN _ = False"
| "flt _ NaN = False"
| "flt (Infty s) (Infty t) = (s \<and> \<not> t)"
| "flt (Infty s) (Fin t n) = s"
| "flt (Fin s m) (Infty t) = (\<not> t)"
| "flt (Fin s m) (Fin t n) = (valof (Fin s m) < valof (Fin t n))"

fun fle :: "dbl \<Rightarrow> dbl \<Rightarrow> bool" where
  "fle NaN _ = False"
| "fle _ NaN = False"
| "fle (Infty s) (Infty t) = (s \<or> \<not> t)"
| "fle (Infty s) (Fin t n) = s"
| "fle (Fin s m) (Infty t) = (\<not> t)"
| "fle (Fin s m) (Fin t n) = (valof (Fin s m) \<le> valof (Fin t n))"

fun feq :: "dbl \<Rightarrow> dbl \<Rightarrow> bool" where
  "feq NaN _ = False"
| "feq _ NaN = False"
| "feq (Infty s) (Infty t) = (s = t)"
| "feq (Infty s) (Fin t n) = False"
| "feq (Fin s m) (Infty t) = False"
| "feq (Fin s m) (Fin t n) = (valof (Fin s m) = valof (Fin t n))"

definition fgt :: "dbl \<Rightarrow> dbl \<Rightarrow> bool" where
  "fgt a b = flt b a"

definition fge :: "dbl \<Rightarrow> dbl \<Rightarrow> bool" where
  "fge a b = fle b a"

subsection \<open>Complex values and the mixed operations of C\<close>

text \<open>
  Modelled from the spec: \<^verbatim>\<open>CNUM\<close>, \<^verbatim>\<open>pnfft_creal\<close> and \<^verbatim>\<open>pnfft_cimag\<close> come
  from the same missing header; they build a complex value from its two parts and read
  the parts back.
\<close>

definition CNUM :: "dbl \<Rightarrow> dbl \<Rightarrow> cmplx" where
  "CNUM a b = (a, b)"

definition pnfft_creal :: "cmplx \<Rightarrow> dbl" where
  "pnfft_creal z = fst z"

definition pnfft_cimag :: "cmplx \<Rightarrow> dbl" where
  "pnfft_cimag z = snd z"

text \<open>A real returned from a function of complex type: the imaginary part is \<open>+0\<close>.\<close>

definition cmplx_of_R :: "dbl \<Rightarrow> cmplx" where
  "cmplx_of_R r = (r, Fin False 0)"

definition cneg :: "cmplx \<Rightarrow> cmplx" where
  "cneg z = (fneg (fst z), fneg (snd z))"

definition csub :: "cmplx \<Rightarrow> cmplx \<Rightarrow> cmplx" where
  "csub u v = (fsub (fst u) (fst v), fsub (snd u) (snd v))"

text \<open>
  An operation between a real and a complex operand acts on the parts, the real operand is
  not converted: \<open>r * (a + ib) = ra + i(rb)\<close>, \<open>r + (a + ib) = (r + a) + ib\<close>,
  \<open>r - (a + ib) = (r - a) + i(-b)\<close>, \<open>(a + ib) - r = (a - r) + ib\<close>,
  \<open>(a + ib) / r = a/r + i(b/r)\<close>.
\<close>

definition rc_mul :: "dbl \<Rightarrow> cmplx \<Rightarrow> cmplx" where
  "rc_mul r z = (fmul r (fst z), fmul r (snd z))"

definition cr_mul :: "cmplx \<Rightarrow> dbl \<Rightarrow> cmplx" where
  "cr_mul z r = (fmul (fst z) r, fmul (snd z) r)"

definition rc_add :: "dbl \<Rightarrow> cmplx \<Rightarrow> cmplx" where
  "rc_add r z = (fadd r (fst z), snd z)"

definition rc_sub :: "dbl \<Rightarrow> cmplx \<Rightarrow> cmplx" where
  "rc_sub r z = (fsub r (fst z), fneg (snd z))"

definition cr_sub :: "cmplx \<Rightarrow> dbl \<Rightarrow> cmplx" where
  "cr_sub z r = (fsub (fst z) r, snd z)"

definition cr_div :: "cmplx \<Rightarrow> dbl \<Rightarrow> cmplx" where
  "cr_div z r = (fdiv (fst z) r, fdiv (snd z) r)"

section \<open>The functions the dispatchers call\<close>

text \<open>
  The kernels \<^verbatim>\<open>w_of_z\<close>, \<^verbatim>\<open>im_w_of_x\<close> and \<^verbatim>\<open>erfcx\<close> live in other files of the
  library, and \<^verbatim>\<open>erf\<close>, \<^verbatim>\<open>exp\<close>, \<^verbatim>\<open>cos\<close>, \<^verbatim>\<open>sin\<close>, \<^verbatim>\<open>sqrt\<close>, \<^verbatim>\<open>cexp\<close> come
  from the mathematical library.  They are parameters of every function below.  The
  product of two complex values is the usual formula whenever that does not give NaN in
  both parts; what the C implementation returns in that case (it may recover an infinity)
  is the parameter \<open>cx_mul_recover\<close>.
\<close>

record env =
  w_of_z :: "cmplx \<Rightarrow> cmplx"
  im_w_of_x :: "dbl \<Rightarrow> dbl"
  erfcx :: "dbl \<Rightarrow> dbl"
  erf :: "dbl \<Rightarrow> dbl"
  pnfft_exp :: "dbl \<Rightarrow> dbl"
  pnfft_cos :: "dbl \<Rightarrow> dbl"
  pnfft_sin :: "dbl \<Rightarrow> dbl"
  pnfft_sqrt :: "dbl \<Rightarrow> dbl"
  pnfft_cexp :: "cmplx \<Rightarrow> cmplx"
  cx_mul_recover :: "cmplx \<Rightarrow> cmplx \<Rightarrow> cmplx"

definition cmul_formula :: "cmplx \<Rightarrow> cmplx \<Rightarrow> cmplx" where
  "cmul_formula u v =
     (fsub (fmul (fst u) (fst v)) (fmul (snd u) (snd v)),
      fadd (fmul (fst u) (snd v)) (fmul (snd u) (fst v)))"

definition cmul :: "env \<Rightarrow> cmplx \<Rightarrow> cmplx \<Rightarrow> cmplx" where
  "cmul E u v =
     (let p = cmul_formula u v
      in if is_nan (fst p) \<and> is_nan (snd p) then cx_mul_recover E u v else p)"

section \<open>Constants\<close>

definition spi2 :: dbl where
  "spi2 = lit (8862269254527580136490837416705725913990 / 10 ^ 40)"

definition s2pi :: dbl where
  "s2pi = lit (25066282746310005024157652848110 / 10 ^ 31)"

definition pi_R :: dbl where
  "pi_R = lit (3141592653589793238462643383279503 / 10 ^ 33)"

section \<open>The dispatchers\<close>

text \<open>
  Every function that chooses between formulas is written as in the source, a chain of
  guarded returns, and each return carries a name: \<open>f_disp\<close> gives the pair of the
  return statement that is reached and of its value, and \<open>f\<close> is the value.
\<close>

subsection \<open>Simple wrappers: cerfcx, erfi, dawson\<close>

definition cerfcx :: "env \<Rightarrow> cmplx \<Rightarrow> cmplx" where
  "cerfcx E z = w_of_z E (CNUM (fneg (pnfft_cimag z)) (pnfft_creal z))"

datatype erfi_branch = Erfi_saturated | Erfi_product

definition erfi_disp :: "env \<Rightarrow> dbl \<Rightarrow> erfi_branch \<times> dbl" where
  "erfi_disp E x =
     (if fgt (fmul x x) (lit 720)
      then (Erfi_saturated, if fgt x (lit 0) then Infty False else fneg (Infty False))
      else (Erfi_product, fmul (pnfft_exp E (fmul x x)) (im_w_of_x E x)))"

definition erfi :: "env \<Rightarrow> dbl \<Rightarrow> dbl" where
  "erfi E x = snd (erfi_disp E x)"

datatype dawson_branch = Dawson_kernel

definition dawson_disp :: "env \<Rightarrow> dbl \<Rightarrow> dawson_branch \<times> dbl" where
  "dawson_disp E x = (Dawson_kernel, fmul spi2 (im_w_of_x E x))"

definition dawson :: "env \<Rightarrow> dbl \<Rightarrow> dbl" where
  "dawson E x = snd (dawson_disp E x)"

definition re_w_of_z :: "env \<Rightarrow> dbl \<Rightarrow> dbl \<Rightarrow> dbl" where
  "re_w_of_z E x y = pnfft_creal (w_of_z E (CNUM x y))"

definition im_w_of_z :: "env \<Rightarrow> dbl \<Rightarrow> dbl \<Rightarrow> dbl" where
  "im_w_of_z E x y = pnfft_cimag (w_of_z E (CNUM x y))"

subsection \<open>voigt\<close>

text \<open>
  The condition \<^verbatim>\<open>x ? 0 : Inf\<close> tests \<^verbatim>\<open>x != 0\<close>, the negation of \<^verbatim>\<open>==\<close>;
  \<^verbatim>\<open>-x*x/2/(sig*sig)\<close> is \<open>(((- x) * x) / 2) / (sig * sig)\<close>.
\<close>

datatype voigt_branch = Voigt_delta | Voigt_gaussian | Voigt_lorentzian | Voigt_regular

definition voigt_disp :: "env \<Rightarrow> dbl \<Rightarrow> dbl \<Rightarrow> dbl \<Rightarrow> voigt_branch \<times> dbl" where
  "voigt_disp E x sigma gamma =
     (let gam = (if flt gamma (lit 0) then fneg gamma else gamma);
          sig = (if flt sigma (lit 0) then fneg sigma else sigma)
      in if feq gam (lit 0) then
           (if feq sig (lit 0) then
              (Voigt_delta, if \<not> feq x (lit 0) then lit 0 else Infty False)
            else
              (Voigt_gaussian,
               fdiv (fdiv (pnfft_exp E (fdiv (fdiv (fmul (fneg x) x) (lit 2)) (fmul sig sig)))
                          s2pi) sig))
         else
           (if feq sig (lit 0) then
              (Voigt_lorentzian, fdiv (fdiv gam pi_R) (fadd (fmul x x) (fmul gam gam)))
            else
              (let z = cr_div (cr_div (CNUM x gam) (pnfft_sqrt E (lit 2))) sig
               in (Voigt_regular, fdiv (fdiv (pnfft_creal (w_of_z E z)) s2pi) sig))))"

definition voigt :: "env \<Rightarrow> dbl \<Rightarrow> dbl \<Rightarrow> dbl \<Rightarrow> dbl" where
  "voigt E x sigma gamma = snd (voigt_disp E x sigma gamma)"

subsection \<open>cerf\<close>

text \<open>
  The block at the label \<^verbatim>\<open>taylor\<close>: the series
  \<open>z * (c0 + mz2 * (c1 + mz2 * (c2 + mz2 * (c3 + mz2 * c4))))\<close> in \<open>mz2 = - z\<^sup>2\<close>.
\<close>

definition cerf_taylor :: "env \<Rightarrow> cmplx \<Rightarrow> dbl \<Rightarrow> dbl \<Rightarrow> cmplx" where
  "cerf_taylor E z mRe_z2 mIm_z2 =
     (let mz2 = CNUM mRe_z2 mIm_z2
      in cmul E z
           (rc_add (lit (11283791670955125739 / 10 ^ 19))
              (cmul E mz2
                 (rc_add (lit (37612638903183752464 / 10 ^ 20))
                    (cmul E mz2
                       (rc_add (lit (11283791670955125739 / 10 ^ 20))
                          (cmul E mz2
                             (rc_add (lit (26866170645131251760 / 10 ^ 21))
                                (cr_mul mz2 (lit (52239776254421878422 / 10 ^ 22)))))))))))"

text \<open>The block at the label \<^verbatim>\<open>taylor_erfi\<close>.\<close>

definition cerf_taylor_erfi :: "env \<Rightarrow> dbl \<Rightarrow> dbl \<Rightarrow> cmplx" where
  "cerf_taylor_erfi E x y =
     (let x2 = fmul x x;
          y2 = fmul y y;
          expy2 = pnfft_exp E y2
      in CNUM
           (fmul (fmul expy2 x)
              (fadd
                 (fsub (lit (11283791670955125739 / 10 ^ 19))
                    (fmul x2 (fadd (lit (37612638903183752464 / 10 ^ 20))
                                   (fmul (lit (75225277806367504925 / 10 ^ 20)) y2))))
                 (fmul (fmul x2 x2)
                    (fadd (lit (11283791670955125739 / 10 ^ 20))
                       (fmul y2 (fadd (lit (45135166683820502956 / 10 ^ 20))
                                      (fmul (lit (15045055561273500986 / 10 ^ 20)) y2)))))))
           (fmul expy2
              (fsub (im_w_of_x E y)
                 (fmul (fmul x2 y)
                    (fsub (lit (11283791670955125739 / 10 ^ 19))
                       (fmul x2 (fadd (lit (56418958354775628695 / 10 ^ 20))
                                      (fmul (lit (37612638903183752464 / 10 ^ 20)) y2))))))))"

datatype cerf_branch =
  Cerf_real_axis | Cerf_imag_axis | Cerf_underflow | Cerf_taylor | Cerf_taylor_erfi
  | Cerf_mirror_pos | Cerf_mirror_neg | Cerf_nan

definition cerf_disp :: "env \<Rightarrow> cmplx \<Rightarrow> cerf_branch \<times> cmplx" where
  "cerf_disp E z =
     (let x = pnfft_creal z; y = pnfft_cimag z
      in if feq y (lit 0) then (Cerf_real_axis, CNUM (erf E x) y)
         else if feq x (lit 0) then
           (Cerf_imag_axis,
            CNUM x (if fgt (fmul y y) (lit 720)
                    then (if fgt y (lit 0) then Infty False else fneg (Infty False))
                    else fmul (pnfft_exp E (fmul y y)) (im_w_of_x E y)))
         else
           (let mRe_z2 = fmul (fsub y x) (fadd x y);
                mIm_z2 = fmul (fmul (fneg (lit 2)) x) y
            in if flt mRe_z2 (fneg (lit 750)) then
                 (Cerf_underflow, cmplx_of_R (if fge x (lit 0) then lit 1 else fneg (lit 1)))
               else if fge x (lit 0) then
                 (let general =
                        (Cerf_mirror_pos,
                         rc_sub (lit 1)
                           (rc_mul (pnfft_exp E mRe_z2)
                              (cmul E (CNUM (pnfft_cos E mIm_z2) (pnfft_sin E mIm_z2))
                                      (w_of_z E (CNUM (fneg y) x)))))
                  in if flt x (lit (8 / 10 ^ 2)) then
                       (if flt (pnfft_fabs y) (lit (1 / 10 ^ 2)) then
                          (Cerf_taylor, cerf_taylor E z mRe_z2 mIm_z2)
                        else if flt (pnfft_fabs mIm_z2) (lit (5 / 10 ^ 3))
                                \<and> flt x (lit (5 / 10 ^ 3)) then
                          (Cerf_taylor_erfi, cerf_taylor_erfi E x y)
                        else general)
                     else general)
               else
                 (let general =
                        (Cerf_mirror_neg,
                         cr_sub
                           (rc_mul (pnfft_exp E mRe_z2)
                              (cmul E (CNUM (pnfft_cos E mIm_z2) (pnfft_sin E mIm_z2))
                                      (w_of_z E (CNUM y (fneg x)))))
                           (lit 1))
                  in if fgt x (fneg (lit (8 / 10 ^ 2))) then
                       (if flt (pnfft_fabs y) (lit (1 / 10 ^ 2)) then
                          (Cerf_taylor, cerf_taylor E z mRe_z2 mIm_z2)
                        else if flt (pnfft_fabs mIm_z2) (lit (5 / 10 ^ 3))
                                \<and> fgt x (fneg (lit (5 / 10 ^ 3))) then
                          (Cerf_taylor_erfi, cerf_taylor_erfi E x y)
                        else general)
                     else if is_nan x then
                       (Cerf_nan, CNUM NaN (if feq y (lit 0) then lit 0 else NaN))
                     else general)))"

definition cerf :: "env \<Rightarrow> cmplx \<Rightarrow> cmplx" where
  "cerf E z = snd (cerf_disp E z)"

definition cerfi :: "env \<Rightarrow> cmplx \<Rightarrow> cmplx" where
  "cerfi E z =
     (let e = cerf E (CNUM (fneg (pnfft_cimag z)) (pnfft_creal z))
      in CNUM (pnfft_cimag e) (fneg (pnfft_creal e)))"

subsection \<open>cerfc\<close>

datatype cerfc_branch =
  Cerfc_imag_axis | Cerfc_real_underflow | Cerfc_real_axis | Cerfc_underflow
  | Cerfc_pos | Cerfc_neg

definition cerfc_disp :: "env \<Rightarrow> cmplx \<Rightarrow> cerfc_branch \<times> cmplx" where
  "cerfc_disp E z =
     (let x = pnfft_creal z; y = pnfft_cimag z
      in if feq x (lit 0) then
           (Cerfc_imag_axis,
            CNUM (lit 1)
                 (if fgt (fmul y y) (lit 720)
                  then (if fgt y (lit 0) then fneg (Infty False) else Infty False)
                  else fmul (fneg (pnfft_exp E (fmul y y))) (im_w_of_x E y)))
         else if feq y (lit 0) then
           (if fgt (fmul x x) (lit 750) then
              (Cerfc_real_underflow,
               CNUM (if fge x (lit 0) then lit 0 else lit 2) (fneg y))
            else
              (Cerfc_real_axis,
               CNUM (if fge x (lit 0)
                     then fmul (pnfft_exp E (fmul (fneg x) x)) (erfcx E x)
                     else fsub (lit 2)
                            (fmul (pnfft_exp E (fmul (fneg x) x)) (erfcx E (fneg x))))
                    (fneg y)))
         else
           (let mRe_z2 = fmul (fsub y x) (fadd x y);
                mIm_z2 = fmul (fmul (fneg (lit 2)) x) y
            in if flt mRe_z2 (fneg (lit 750)) then
                 (Cerfc_underflow, cmplx_of_R (if fge x (lit 0) then lit 0 else lit 2))
               else if fge x (lit 0) then
                 (Cerfc_pos,
                  cmul E (pnfft_cexp E (CNUM mRe_z2 mIm_z2)) (w_of_z E (CNUM (fneg y) x)))
               else
                 (Cerfc_neg,
                  rc_sub (lit 2)
                    (cmul E (pnfft_cexp E (CNUM mRe_z2 mIm_z2))
                            (w_of_z E (CNUM y (fneg x)))))))"

definition cerfc :: "env \<Rightarrow> cmplx \<Rightarrow> cmplx" where
  "cerfc E z = snd (cerfc_disp E z)"

subsection \<open>cdawson\<close>

text \<open>The block at the label \<^verbatim>\<open>taylor\<close>: \<open>z * (1 + mz2 * (c1 + mz2 * c2))\<close>.\<close>

definition cdawson_taylor :: "env \<Rightarrow> cmplx \<Rightarrow> cmplx \<Rightarrow> cmplx" where
  "cdawson_taylor E z mz2 =
     cmul E z
       (rc_add (lit 1)
          (cmul E mz2
             (rc_add (lit (6666666666666666666666666666666666666667 / 10 ^ 40))
                (cr_mul mz2 (lit (2666666666666666666666666666666666666667 / 10 ^ 40))))))"

text \<open>
  The block at the label \<^verbatim>\<open>taylor_realaxis\<close> has three returns, by the range of
  \<open>x2 = x * x\<close>: above \<open>25e14\<close>, above \<open>1600\<close>, and the rest.
\<close>

definition cdawson_realaxis_huge :: "dbl \<Rightarrow> dbl \<Rightarrow> cmplx" where
  "cdawson_realaxis_huge x y =
     (let x2 = fmul x x;
          y2 = fmul y y;
          xy2 = fmul (fmul x y) (fmul x y)
      in CNUM
           (fdiv
              (fadd (lit (5 / 10))
                 (fmul y2
                    (fsub (fadd (lit (5 / 10)) (fmul (lit (25 / 10 ^ 2)) y2))
                          (fmul (lit (16666666666666666667 / 10 ^ 20)) xy2))))
              x)
           (fdiv
              (fmul y
                 (fadd (fneg (lit 1))
                    (fmul y2
                       (fsub
                          (fadd (fneg (lit (66666666666666666667 / 10 ^ 20)))
                                (fmul (lit (13333333333333333333 / 10 ^ 20)) xy2))
                          (fmul (lit (26666666666666666667 / 10 ^ 20)) y2)))))
              (fsub (fmul (lit 2) x2) (lit 1))))"

definition cdawson_realaxis_cf :: "dbl \<Rightarrow> dbl \<Rightarrow> cmplx" where
  "cdawson_realaxis_cf x y =
     (let x2 = fmul x x;
          y2 = fmul y y
      in rc_mul
           (fdiv (lit 1)
              (fadd (fneg (lit 15))
                 (fmul x2 (fadd (lit 90)
                    (fmul x2 (fadd (fneg (lit 60)) (fmul (lit 8) x2)))))))
           (CNUM
              (fmul x
                 (fadd
                    (fadd (lit 33) (fmul x2 (fadd (fneg (lit 28)) (fmul (lit 4) x2))))
                    (fmul y2 (fadd (fsub (lit 18) (fmul (lit 4) x2)) (fmul (lit 4) y2)))))
              (fmul y
                 (fadd
                    (fadd (fneg (lit 15)) (fmul x2 (fsub (lit 24) (fmul (lit 4) x2))))
                    (fmul y2 (fsub (fsub (fmul (lit 4) x2) (lit 10)) (fmul (lit 4) y2)))))))"

definition cdawson_realaxis_taylor :: "env \<Rightarrow> dbl \<Rightarrow> dbl \<Rightarrow> cmplx" where
  "cdawson_realaxis_taylor E x y =
     (let x2 = fmul x x;
          D = fmul spi2 (im_w_of_x E x);
          y2 = fmul y y
      in CNUM
           (fadd
              (fadd D (fmul y2 (fsub (fadd D x) (fmul (fmul (lit 2) D) x2))))
              (fmul (fmul y2 y2)
                 (fadd
                    (fmul D
                       (fsub (lit (5 / 10))
                          (fmul x2 (fsub (lit 2)
                             (fmul (lit (66666666666666666667 / 10 ^ 20)) x2)))))
                    (fmul x
                       (fsub (lit (83333333333333333333 / 10 ^ 20))
                             (fmul (lit (33333333333333333333 / 10 ^ 20)) x2))))))
           (fmul y
              (fadd
                 (fadd
                    (fsub (lit 1) (fmul (fmul (lit 2) D) x))
                    (fmul (fmul y2 (lit (66666666666666666667 / 10 ^ 20)))
                       (fsub (fsub (lit 1) x2)
                             (fmul (fmul D x) (fsub (lit 3) (fmul (lit 2) x2))))))
                 (fmul (fmul y2 y2)
                    (fsub
                       (fsub (lit (26666666666666666667 / 10 ^ 20))
                          (fmul x2 (fsub (lit (6 / 10))
                             (fmul (lit (13333333333333333333 / 10 ^ 20)) x2))))
                       (fmul (fmul D x)
                          (fsub (lit 1)
                             (fmul x2
                                (fsub (lit (13333333333333333333 / 10 ^ 19))
                                   (fmul (lit (26666666666666666667 / 10 ^ 20)) x2))))))))))"

datatype cdawson_branch =
  Cdawson_real_axis | Cdawson_imag_taylor | Cdawson_imag_axis | Cdawson_taylor
  | Cdawson_cf_huge | Cdawson_cf | Cdawson_realaxis_taylor
  | Cdawson_direct | Cdawson_mirror | Cdawson_nan

definition cdawson_taylor_realaxis ::
  "env \<Rightarrow> dbl \<Rightarrow> dbl \<Rightarrow> cdawson_branch \<times> cmplx" where
  "cdawson_taylor_realaxis E x y =
     (let x2 = fmul x x
      in if fgt x2 (lit 1600) then
           (if fgt x2 (lit (25 * 10 ^ 14)) then (Cdawson_cf_huge, cdawson_realaxis_huge x y)
            else (Cdawson_cf, cdawson_realaxis_cf x y))
         else (Cdawson_realaxis_taylor, cdawson_realaxis_taylor E x y))"

definition cdawson_disp :: "env \<Rightarrow> cmplx \<Rightarrow> cdawson_branch \<times> cmplx" where
  "cdawson_disp E z =
     (let x = pnfft_creal z; y = pnfft_cimag z
      in if feq y (lit 0) then
           (Cdawson_real_axis, CNUM (fmul spi2 (im_w_of_x E x)) (fneg y))
         else if feq x (lit 0) then
           (let y2 = fmul y y
            in if flt y2 (lit (25 / 10 ^ 6)) then
                 (Cdawson_imag_taylor,
                  CNUM x
                    (fmul y
                       (fadd (lit 1)
                          (fmul y2
                             (fadd (lit (6666666666666666666666666666666666666667 / 10 ^ 40))
                                (fmul y2
                                   (lit (26666666666666666666666666666666666667 / 10 ^ 38))))))))
               else
                 (Cdawson_imag_axis,
                  CNUM x
                    (fmul spi2
                       (if fge y (lit 0) then fsub (pnfft_exp E y2) (erfcx E y)
                        else fsub (erfcx E (fneg y)) (pnfft_exp E y2)))))
         else
           (let mRe_z2 = fmul (fsub y x) (fadd x y);
                mIm_z2 = fmul (fmul (fneg (lit 2)) x) y;
                mz2 = CNUM mRe_z2 mIm_z2
            in if fge y (lit 0) then
                 (let direct =
                        (let res = csub (pnfft_cexp E mz2) (w_of_z E z)
                         in (Cdawson_direct,
                             rc_mul spi2 (CNUM (fneg (pnfft_cimag res)) (pnfft_creal res))))
                  in if flt y (lit (5 / 10 ^ 3)) then
                       (if flt (pnfft_fabs x) (lit (5 / 10 ^ 3)) then
                          (Cdawson_taylor, cdawson_taylor E z mz2)
                        else if flt (pnfft_fabs mIm_z2) (lit (5 / 10 ^ 3)) then
                          cdawson_taylor_realaxis E x y
                        else direct)
                     else direct)
               else
                 (let mirror =
                        (let res = csub (w_of_z E (cneg z)) (pnfft_cexp E mz2)
                         in (Cdawson_mirror,
                             rc_mul spi2 (CNUM (fneg (pnfft_cimag res)) (pnfft_creal res))))
                  in if fgt y (fneg (lit (5 / 10 ^ 3))) then
                       (if flt (pnfft_fabs x) (lit (5 / 10 ^ 3)) then
                          (Cdawson_taylor, cdawson_taylor E z mz2)
                        else if flt (pnfft_fabs mIm_z2) (lit (5 / 10 ^ 3)) then
                          cdawson_taylor_realaxis E x y
                        else mirror)
                     else if is_nan y then
                       (Cdawson_nan, CNUM (if feq x (lit 0) then lit 0 else NaN) NaN)
                     else mirror)))"

definition cdawson :: "env \<Rightarrow> cmplx \<Rightarrow> cmplx" where
  "cdawson E z = snd (cdawson_disp E z)"

section \<open>An environment for concrete evaluations\<close>

text \<open>
  Simple total functions in place of the kernels and the mathematical library; the
  statements below are instantiated with it at concrete arguments.  Its \<open>im_w_of_x\<close> is
  odd, its functions map NaN to NaN, and its \<open>pnfft_cexp\<close> ignores the sign of a zero
  real part.
\<close>

definition sample_env :: env where
  "sample_env =
     \<lparr> w_of_z = (\<lambda>z. z),
       im_w_of_x = (\<lambda>x. x),
       erfcx = (\<lambda>x. x),
       erf = (\<lambda>x. x),
       pnfft_exp = (\<lambda>x. pnfft_fabs x),
       pnfft_cos = (\<lambda>x. pnfft_fabs x),
       pnfft_sin = (\<lambda>x. x),
       pnfft_sqrt = (\<lambda>x. pnfft_fabs x),
       pnfft_cexp = (\<lambda>z. (pnfft_fabs (fst z), snd z)),
       cx_mul_recover = (\<lambda>u v. (NaN, NaN)) \<rparr>"

section \<open>The condition of each return\<close>

text \<open>
  For each dispatcher, the condition on the input under which a return statement is the
  one reached, collected along the path of tests that leads to it.
\<close>

definition erfi_fires :: "erfi_branch \<Rightarrow> dbl \<Rightarrow> bool" where
  "erfi_fires b x =
     (case b of
        Erfi_saturated \<Rightarrow> fgt (fmul x x) (lit 720)
      | Erfi_product \<Rightarrow> \<not> fgt (fmul x x) (lit 720))"

definition dawson_fires :: "dawson_branch \<Rightarrow> dbl \<Rightarrow> bool" where
  "dawson_fires b x = (case b of Dawson_kernel \<Rightarrow> True)"

definition voigt_fires :: "voigt_branch \<Rightarrow> dbl \<Rightarrow> dbl \<Rightarrow> dbl \<Rightarrow> bool" where
  "voigt_fires b x sigma gamma =
     (let gam = (if flt gamma (lit 0) then fneg gamma else gamma);
          sig = (if flt sigma (lit 0) then fneg sigma else sigma)
      in case b of
           Voigt_delta \<Rightarrow> feq gam (lit 0) \<and> feq sig (lit 0)
         | Voigt_gaussian \<Rightarrow> feq gam (lit 0) \<and> \<not> feq sig (lit 0)
         | Voigt_lorentzian \<Rightarrow> \<not> feq gam (lit 0) \<and> feq sig (lit 0)
         | Voigt_regular \<Rightarrow> \<not> feq gam (lit 0) \<and> \<not> feq sig (lit 0))"

definition cerf_fires :: "cerf_branch \<Rightarrow> cmplx \<Rightarrow> bool" where
  "cerf_fires b z =
     (let x = pnfft_creal z; y = pnfft_cimag z;
          mRe_z2 = fmul (fsub y x) (fadd x y);
          mIm_z2 = fmul (fmul (fneg (lit 2)) x) y;
          off = (\<not> feq y (lit 0) \<and> \<not> feq x (lit 0) \<and> \<not> flt mRe_z2 (fneg (lit 750)));
          small_y = flt (pnfft_fabs y) (lit (1 / 10 ^ 2));
          small_xy = flt (pnfft_fabs mIm_z2) (lit (5 / 10 ^ 3))
      in case b of
           Cerf_real_axis \<Rightarrow> feq y (lit 0)
         | Cerf_imag_axis \<Rightarrow> \<not> feq y (lit 0) \<and> feq x (lit 0)
         | Cerf_underflow \<Rightarrow>
             \<not> feq y (lit 0) \<and> \<not> feq x (lit 0) \<and> flt mRe_z2 (fneg (lit 750))
         | Cerf_taylor \<Rightarrow>
             off \<and> small_y \<and>
             (if fge x (lit 0) then flt x (lit (8 / 10 ^ 2))
              else fgt x (fneg (lit (8 / 10 ^ 2))))
         | Cerf_taylor_erfi \<Rightarrow>
             off \<and> \<not> small_y \<and> small_xy \<and>
             (if fge x (lit 0) then flt x (lit (8 / 10 ^ 2)) \<and> flt x (lit (5 / 10 ^ 3))
              else fgt x (fneg (lit (8 / 10 ^ 2))) \<and> fgt x (fneg (lit (5 / 10 ^ 3))))
         | Cerf_mirror_pos \<Rightarrow>
             off \<and> fge x (lit 0) \<and>
             \<not> (flt x (lit (8 / 10 ^ 2)) \<and>
                (small_y \<or> small_xy \<and> flt x (lit (5 / 10 ^ 3))))
         | Cerf_mirror_neg \<Rightarrow>
             off \<and> \<not> fge x (lit 0) \<and>
             (if fgt x (fneg (lit (8 / 10 ^ 2)))
              then \<not> (small_y \<or> small_xy \<and> fgt x (fneg (lit (5 / 10 ^ 3))))
              else \<not> is_nan x)
         | Cerf_nan \<Rightarrow>
             off \<and> \<not> fge x (lit 0) \<and> \<not> fgt x (fneg (lit (8 / 10 ^ 2))) \<and> is_nan x)"

definition cerfc_fires :: "cerfc_branch \<Rightarrow> cmplx \<Rightarrow> bool" where
  "cerfc_fires b z =
     (let x = pnfft_creal z; y = pnfft_cimag z;
          mRe_z2 = fmul (fsub y x) (fadd x y);
          off = (\<not> feq x (lit 0) \<and> \<not> feq y (lit 0))
      in case b of
           Cerfc_imag_axis \<Rightarrow> feq x (lit 0)
         | Cerfc_real_underflow \<Rightarrow>
             \<not> feq x (lit 0) \<and> feq y (lit 0) \<and> fgt (fmul x x) (lit 750)
         | Cerfc_real_axis \<Rightarrow>
             \<not> feq x (lit 0) \<and> feq y (lit 0) \<and> \<not> fgt (fmul x x) (lit 750)
         | Cerfc_underflow \<Rightarrow> off \<and> flt mRe_z2 (fneg (lit 750))
         | Cerfc_pos \<Rightarrow> off \<and> \<not> flt mRe_z2 (fneg (lit 750)) \<and> fge x (lit 0)
         | Cerfc_neg \<Rightarrow> off \<and> \<not> flt mRe_z2 (fneg (lit 750)) \<and> \<not> fge x (lit 0))"

definition cdawson_fires :: "cdawson_branch \<Rightarrow> cmplx \<Rightarrow> bool" where
  "cdawson_fires b z =
     (let x = pnfft_creal z; y = pnfft_cimag z;
          x2 = fmul x x;
          mIm_z2 = fmul (fmul (fneg (lit 2)) x) y;
          off = (\<not> feq y (lit 0) \<and> \<not> feq x (lit 0));
          near = (if fge y (lit 0) then flt y (lit (5 / 10 ^ 3))
                  else fgt y (fneg (lit (5 / 10 ^ 3))));
          small_x = flt (pnfft_fabs x) (lit (5 / 10 ^ 3));
          small_xy = flt (pnfft_fabs mIm_z2) (lit (5 / 10 ^ 3));
          realaxis = (off \<and> near \<and> \<not> small_x \<and> small_xy)
      in case b of
           Cdawson_real_axis \<Rightarrow> feq y (lit 0)
         | Cdawson_imag_taylor \<Rightarrow>
             \<not> feq y (lit 0) \<and> feq x (lit 0) \<and> flt (fmul y y) (lit (25 / 10 ^ 6))
         | Cdawson_imag_axis \<Rightarrow>
             \<not> feq y (lit 0) \<and> feq x (lit 0) \<and> \<not> flt (fmul y y) (lit (25 / 10 ^ 6))
         | Cdawson_taylor \<Rightarrow> off \<and> near \<and> small_x
         | Cdawson_cf_huge \<Rightarrow>
             realaxis \<and> fgt x2 (lit 1600) \<and> fgt x2 (lit (25 * 10 ^ 14))
         | Cdawson_cf \<Rightarrow>
             realaxis \<and> fgt x2 (lit 1600) \<and> \<not> fgt x2 (lit (25 * 10 ^ 14))
         | Cdawson_realaxis_taylor \<Rightarrow> realaxis \<and> \<not> fgt x2 (lit 1600)
         | Cdawson_direct \<Rightarrow>
             off \<and> fge y (lit 0) \<and> \<not> (near \<and> (small_x \<or> small_xy))
         | Cdawson_mirror \<Rightarrow>
             off \<and> \<not> fge y (lit 0) \<and> \<not> (near \<and> (small_x \<or> small_xy)) \<and>
             (near \<or> \<not> is_nan y)
         | Cdawson_nan \<Rightarrow> off \<and> \<not> fge y (lit 0) \<and> \<not> near \<and> is_nan y)"

text \<open>The classes of a double.\<close>

fun is_inf :: "dbl \<Rightarrow> bool" where
  "is_inf (Infty s) = True"
| "is_inf _ = False"

fun is_finite :: "dbl \<Rightarrow> bool" where
  "is_finite (Fin s m) = True"
| "is_finite _ = False"

definition classified :: "dbl \<Rightarrow> bool" where
  "classified r \<longleftrightarrow>
     (is_finite r \<and> \<not> is_inf r \<and> \<not> is_nan r) \<or>
     (is_inf r \<and> \<not> is_finite r \<and> \<not> is_nan r) \<or>
     (is_nan r \<and> \<not> is_finite r \<and> \<not> is_inf r)"

section \<open>Notions for the symmetry of cdawson\<close>

text \<open>
  Two doubles are the same up to the sign of a zero, which is what \<^verbatim>\<open>==\<close> tests on
  values that are not NaN; here NaN counts as the same as NaN.
\<close>

definition eqz :: "dbl \<Rightarrow> dbl \<Rightarrow> bool" where
  "eqz a b \<longleftrightarrow> a = b \<or> (is_zero a \<and> is_zero b)"

definition ceqz :: "cmplx \<Rightarrow> cmplx \<Rightarrow> bool" where
  "ceqz u v \<longleftrightarrow> eqz (fst u) (fst v) \<and> eqz (snd u) (snd v)"

text \<open>\<open>a\<close> is the negation of \<open>b\<close>, up to the sign of a zero.\<close>

definition negz :: "dbl \<Rightarrow> dbl \<Rightarrow> bool" where
  "negz a b \<longleftrightarrow> eqz a (fneg b)"

text \<open>A finite double of magnitude at most \<open>2 ^ k\<close>; a complex value with such parts.\<close>

definition bnd :: "nat \<Rightarrow> dbl \<Rightarrow> bool" where
  "bnd k a \<longleftrightarrow> (\<exists>s m. a = Fin s m \<and> \<bar>m\<bar> \<le> 2 ^ k)"

definition cbnd :: "nat \<Rightarrow> cmplx \<Rightarrow> bool" where
  "cbnd k u \<longleftrightarrow> bnd k (fst u) \<and> bnd k (snd u)"

text \<open>The series of \<^verbatim>\<open>taylor\<close> with the plain product formula.\<close>

definition cdawson_taylor_formula :: "cmplx \<Rightarrow> cmplx \<Rightarrow> cmplx" where
  "cdawson_taylor_formula z mz2 =
     cmul_formula z
       (rc_add (lit 1)
          (cmul_formula mz2
             (rc_add (lit (6666666666666666666666666666666666666667 / 10 ^ 40))
                (cr_mul mz2 (lit (2666666666666666666666666666666666666667 / 10 ^ 40))))))"

text \<open>Names for the local variables and for the two returns through \<^verbatim>\<open>w_of_z\<close>.\<close>

definition mRe_z2 :: "dbl \<Rightarrow> dbl \<Rightarrow> dbl" where
  "mRe_z2 x y = fmul (fsub y x) (fadd x y)"

definition mIm_z2 :: "dbl \<Rightarrow> dbl \<Rightarrow> dbl" where
  "mIm_z2 x y = fmul (fmul (fneg (lit 2)) x) y"

definition cdawson_direct :: "env \<Rightarrow> cmplx \<Rightarrow> cmplx" where
  "cdawson_direct E z =
     (let res = csub (pnfft_cexp E (mRe_z2 (fst z) (snd z), mIm_z2 (fst z) (snd z))) (w_of_z E z)
      in rc_mul spi2 (fneg (snd res), fst res))"

definition cdawson_mirror :: "env \<Rightarrow> cmplx \<Rightarrow> cmplx" where
  "cdawson_mirror E z =
     (let res = csub (w_of_z E (cneg z)) (pnfft_cexp E (mRe_z2 (fst z) (snd z), mIm_z2 (fst z) (snd z)))
      in rc_mul spi2 (fneg (snd res), fst res))"

text \<open>
  The branch that the negated argument takes: the two returns through \<^verbatim>\<open>w_of_z\<close>,
  one for \<open>y \<ge> 0\<close> and one for \<open>y < 0\<close>, change places, every other return is kept.
\<close>

fun cdawson_branch_mirror :: "cdawson_branch \<Rightarrow> cdawson_branch" where
  "cdawson_branch_mirror Cdawson_direct = Cdawson_mirror"
| "cdawson_branch_mirror Cdawson_mirror = Cdawson_direct"
| "cdawson_branch_mirror b = b"

section \<open>The continued fraction in exact arithmetic\<close>







section \<open>Basic facts about the arithmetic\<close>

text \<open>Evaluation of the rounding at numerals.\<close>

lemma blen_numeral [simp]: "blen (numeral k) = 1 + blen (numeral k div 2)"
  by (subst blen.simps) simp

lemma blen_0 [simp]: "blen 0 = 0"
  by (subst blen.simps) simp

lemma blen_1 [simp]: "blen 1 = 1"
  by (subst blen.simps) simp

lemma floor_rat_numeral [simp]:
  "\<lfloor>(numeral a :: rat) / numeral b\<rfloor> = numeral a div numeral b"
  using floor_divide_of_int_eq [of "numeral a" "numeral b", where ?'a = rat] by simp

lemma ceiling_rat_numeral [simp]:
  "\<lceil>(numeral a :: rat) / numeral b\<rceil> = - (- numeral a div numeral b)"
  using ceiling_divide_eq_div [of "numeral a" "numeral b", where ?'a = rat] by simp

lemmas round_eval =
  lit_def round_sm_def round_mag_def round_int_def ulp_exp_def flog2_def pow2_def Let_def

text \<open>The same at numerals only: terms with variables stay as they are.\<close>

lemmas num_eval =
  lit_def Let_def
  round_sm_def [of _ "numeral k"] round_sm_def [of _ 1]
  round_sm_def [of _ "numeral a / numeral b"] round_sm_def [of _ "1 / numeral b"]
  round_mag_def [of "numeral k"] round_mag_def [of 1]
  round_mag_def [of "numeral a / numeral b"] round_mag_def [of "1 / numeral b"]
  ulp_exp_def [of "numeral k"] ulp_exp_def [of 1]
  ulp_exp_def [of "numeral a / numeral b"] ulp_exp_def [of "1 / numeral b"]
  flog2_def [of "numeral k"] flog2_def [of 1]
  flog2_def [of "numeral a / numeral b"] flog2_def [of "1 / numeral b"]
  round_int_def [of "numeral k"] round_int_def [of 1]
  round_int_def [of "numeral a / numeral b"] round_int_def [of "1 / numeral b"]
  pow2_def [of "numeral k"] pow2_def [of "- numeral k"] pow2_def [of 0]
  pow2_def [of 1] pow2_def [of "- 1"]
  for k a b

lemma round_mag_0 [simp]: "round_mag 0 = 0"
  by (simp add: round_mag_def)

text \<open>The model agrees with the binary representation at some known values.\<close>

lemma lit_tenth: "lit (1 / 10) = Fin False (3602879701896397 / 2 ^ 55)"
  by (simp add: round_eval)

lemma spi2_value: "spi2 = Fin False (7982422502469483 / 2 ^ 53)"
  by (simp add: spi2_def round_eval)

lemma round_tie_even: "round_sm True (1 + 3 / 2 ^ 53) = Fin True (1 + 1 / 2 ^ 51)"
  by (simp add: round_eval)

lemma fadd_tenths: "fadd (lit (1 / 10)) (lit (2 / 10)) = lit (30000000000000004 / 10 ^ 17)"
  by (simp add: num_eval)

lemma fsub_infinities: "fsub (Infty False) (Infty False) = NaN"
  by (simp add: fsub_def)

lemma round_sm_0 [simp]: "round_sm s 0 = Fin s 0"
  by (simp add: round_sm_def)

lemma round_sm_minus [simp]: "round_sm s (- q) = round_sm s q"
  by (simp add: round_sm_def)

lemma lit_0 [simp]: "lit 0 = Fin False 0"
  by (simp add: lit_def)

lemma fabs_round_sm [simp]: "pnfft_fabs (round_sm s q) = round_sm False q"
  by (simp add: round_sm_def Let_def)

lemma feq_zero_iff [simp]: "feq a (Fin s 0) \<longleftrightarrow> is_zero a"
  by (cases a) auto

lemma flt_zero_of_is_zero [simp]: "is_zero a \<Longrightarrow> \<not> flt a (Fin s 0)"
  by (cases a) auto

lemma flt_NaN_right [simp]: "\<not> flt a NaN"
  by (cases a) auto

lemma fle_NaN_right [simp]: "\<not> fle a NaN"
  by (cases a) auto

lemma feq_NaN_right [simp]: "\<not> feq a NaN"
  by (cases a) auto

lemma fmul_NaN_right [simp]: "fmul a NaN = NaN"
  by (cases a) auto

lemma fadd_NaN_right [simp]: "fadd a NaN = NaN"
  by (cases a) auto

lemma fle_not_flt: "fle a b \<Longrightarrow> \<not> flt b a"
  by (cases a; cases b) auto

lemma lit_1 [simp]: "lit 1 = Fin False 1"
  by (simp add: round_eval)

lemma fadd_NaN_left [simp]: "fadd NaN a = NaN"
  by simp

lemma fsub_NaN [simp]: "fsub a NaN = NaN" "fsub NaN a = NaN"
  by (simp_all add: fsub_def)

lemma fge_or_flt: "\<not> is_nan a \<Longrightarrow> fge a (Fin False 0) \<or> flt a (Fin False 0)"
  by (cases a) (auto simp: fge_def)

lemma fge_flt_excl: "fge a b \<Longrightarrow> \<not> flt a b"
  by (cases a; cases b) (auto simp: fge_def)

section \<open>Negation, zeros and magnitudes\<close>

lemma eqz_refl [simp, intro]: "eqz a a"
  by (simp add: eqz_def)

lemma eqz_sym: "eqz a b \<Longrightarrow> eqz b a"
  by (auto simp: eqz_def)

lemma eqz_trans: "eqz a b \<Longrightarrow> eqz b c \<Longrightarrow> eqz a c"
  by (auto simp: eqz_def)

lemma fneg_fneg [simp]: "fneg (fneg a) = a"
  by (cases a) auto

lemma is_zero_fneg [simp]: "is_zero (fneg a) = is_zero a"
  by (cases a) auto

lemma is_nan_fneg [simp]: "is_nan (fneg a) = is_nan a"
  by (cases a) auto

lemma fabs_fneg [simp]: "pnfft_fabs (fneg a) = pnfft_fabs a"
  by (cases a) auto

lemma fneg_round_sm: "fneg (round_sm s q) = round_sm (\<not> s) q"
  by (simp add: round_sm_def Let_def)

lemma fmul_fneg_left [simp]: "fmul (fneg a) b = fneg (fmul a b)"
  by (cases a; cases b) (auto simp: fneg_round_sm)

lemma fmul_fneg_right [simp]: "fmul a (fneg b) = fneg (fmul a b)"
  by (cases a; cases b) (auto simp: fneg_round_sm)

lemma fdiv_fneg_left [simp]: "fdiv (fneg a) b = fneg (fdiv a b)"
  by (cases a; cases b) (auto simp: fneg_round_sm)

lemma fdiv_fneg_right [simp]: "fdiv a (fneg b) = fneg (fdiv a b)"
  by (cases a; cases b) (auto simp: fneg_round_sm)

lemma fadd_commute: "fadd a b = fadd b a"
  by (cases a; cases b) (auto simp: add.commute Let_def)

lemma valof_fneg_Fin: "valof (Fin (\<not> s) m) = - valof (Fin s m)"
  by simp

lemma round_sm_abs_cong: "\<bar>q\<bar> = \<bar>q'\<bar> \<Longrightarrow> round_sm s q = round_sm s q'"
  by (simp add: round_sm_def)

lemma fadd_fneg_Fin:
  "eqz (fadd (Fin (\<not> s) m) (Fin (\<not> t) n)) (fneg (fadd (Fin s m) (Fin t n)))"
proof -
  define v where "v = valof (Fin s m) + valof (Fin t n)"
  have v': "valof (Fin (\<not> s) m) + valof (Fin (\<not> t) n) = - v"
    unfolding v_def valof_fneg_Fin by simp
  have l: "fadd (Fin (\<not> s) m) (Fin (\<not> t) n) =
      (if v = 0 then Fin (\<not> s \<and> \<not> t) 0 else round_sm (0 < v) (- v))"
    unfolding fadd.simps v' Let_def by simp
  have r: "fadd (Fin s m) (Fin t n) = (if v = 0 then Fin (s \<and> t) 0 else round_sm (v < 0) v)"
    unfolding fadd.simps v_def Let_def by simp
  show ?thesis
  proof (cases "v = 0")
    case True
    then show ?thesis unfolding l r by (simp add: eqz_def)
  next
    case False
    then have "(0 < v) = (\<not> v < 0)" by auto
    moreover have "round_sm (\<not> v < 0) (- v) = round_sm (\<not> v < 0) v"
      by (rule round_sm_abs_cong) simp
    ultimately show ?thesis
      unfolding l r using False by (simp add: fneg_round_sm)
  qed
qed

lemma fadd_fneg: "eqz (fadd (fneg a) (fneg b)) (fneg (fadd a b))"
proof (cases a)
  case NaN
  then show ?thesis by simp
next
  case (Infty s)
  then show ?thesis by (cases b) auto
next
  case a: (Fin s m)
  show ?thesis
  proof (cases b)
    case NaN
    then show ?thesis by simp
  next
    case (Infty t)
    with a show ?thesis by simp
  next
    case (Fin t n)
    show ?thesis
      unfolding a Fin fneg.simps by (rule fadd_fneg_Fin)
  qed
qed

lemma eqz_fneg: "eqz a b \<Longrightarrow> eqz (fneg a) (fneg b)"
  by (auto simp: eqz_def)

lemma eqz_fadd: "eqz a a' \<Longrightarrow> eqz b b' \<Longrightarrow> eqz (fadd a b) (fadd a' b')"
  by (cases a; cases a'; cases b; cases b') (auto simp: eqz_def Let_def)

lemma eqz_fsub: "eqz a a' \<Longrightarrow> eqz b b' \<Longrightarrow> eqz (fsub a b) (fsub a' b')"
  unfolding fsub_def by (intro eqz_fadd eqz_fneg)

lemma eqz_fmul: "eqz a a' \<Longrightarrow> eqz b b' \<Longrightarrow> eqz (fmul a b) (fmul a' b')"
  by (cases a; cases a'; cases b; cases b') (auto simp: eqz_def)

lemma eqz_fdiv_num: "eqz a a' \<Longrightarrow> eqz (fdiv a b) (fdiv a' b)"
  by (cases a; cases a'; cases b) (auto simp: eqz_def)

lemma flt_eqz: "eqz a a' \<Longrightarrow> eqz b b' \<Longrightarrow> flt a b = flt a' b'"
  by (cases a; cases a'; cases b; cases b') (auto simp: eqz_def)

lemma negz_fneg [intro]: "eqz a b \<Longrightarrow> negz (fneg a) b"
  by (simp add: negz_def eqz_fneg)

lemma negz_fadd: "negz a b \<Longrightarrow> negz c d \<Longrightarrow> negz (fadd a c) (fadd b d)"
  unfolding negz_def using eqz_fadd eqz_trans fadd_fneg by blast

lemma negz_fsub: "negz a b \<Longrightarrow> negz c d \<Longrightarrow> negz (fsub a c) (fsub b d)"
  unfolding fsub_def negz_def
  using eqz_fadd eqz_trans fadd_fneg eqz_fneg by (metis fneg_fneg)

lemma negz_fmul_l: "negz a b \<Longrightarrow> eqz c d \<Longrightarrow> negz (fmul a c) (fmul b d)"
  unfolding negz_def using eqz_fmul [of a "fneg b" c d] by simp

lemma negz_fmul_r: "eqz c d \<Longrightarrow> negz a b \<Longrightarrow> negz (fmul c a) (fmul d b)"
  unfolding negz_def using eqz_fmul [of c d a "fneg b"] by simp

lemma eqz_fmul_negz: "negz a b \<Longrightarrow> negz c d \<Longrightarrow> eqz (fmul a c) (fmul b d)"
  unfolding negz_def using eqz_fmul [of a "fneg b" c "fneg d"] by simp

lemma negz_swap: "negz a b \<Longrightarrow> negz b a"
  unfolding negz_def using eqz_fneg eqz_sym by fastforce

lemma fsub_swap: "negz (fsub b a) (fsub a b)"
proof -
  have "eqz (fadd (fneg a) (fneg (fneg b))) (fneg (fadd a (fneg b)))"
    by (rule fadd_fneg)
  then show ?thesis
    by (simp add: negz_def fsub_def fadd_commute [of b])
qed

lemma pow2_pos: "0 < pow2 e"
  by (simp add: pow2_def)

lemma round_int_nonneg: "0 \<le> n \<Longrightarrow> 0 \<le> round_int n"
  by (auto simp: round_int_def Let_def)

lemma round_int_le: "0 \<le> n \<Longrightarrow> rat_of_int (round_int n) \<le> 2 * n"
proof -
  assume n: "0 \<le> n"
  have f: "rat_of_int \<lfloor>n\<rfloor> \<le> n" "0 \<le> \<lfloor>n\<rfloor>"
    using n by (auto simp: floor_le_iff)
  show ?thesis
  proof (cases "\<lfloor>n\<rfloor> = 0")
    case True
    then show ?thesis using n by (auto simp: round_int_def Let_def)
  next
    case False
    with f have "1 \<le> \<lfloor>n\<rfloor>" by linarith
    then have "1 \<le> rat_of_int \<lfloor>n\<rfloor>" by (metis of_int_1_le_iff)
    with f have "rat_of_int \<lfloor>n\<rfloor> + 1 \<le> 2 * n" by linarith
    moreover have "round_int n \<le> \<lfloor>n\<rfloor> + 1"
      by (auto simp: round_int_def Let_def)
    then have "rat_of_int (round_int n) \<le> rat_of_int \<lfloor>n\<rfloor> + 1"
      by (metis of_int_le_iff of_int_add of_int_1)
    ultimately show ?thesis by linarith
  qed
qed

lemma round_mag_nonneg: "0 \<le> q \<Longrightarrow> 0 \<le> round_mag q"
  using pow2_pos [of "ulp_exp q"] round_int_nonneg [of "q / pow2 (ulp_exp q)"]
  by (simp add: round_mag_def)

lemma round_mag_le: "0 \<le> q \<Longrightarrow> round_mag q \<le> 2 * q"
proof (cases "q = 0")
  case True
  then show ?thesis by simp
next
  case False
  assume q: "0 \<le> q"
  define u where "u = pow2 (ulp_exp q)"
  have u: "0 < u" by (simp add: u_def pow2_pos)
  have "rat_of_int (round_int (q / u)) \<le> 2 * (q / u)"
    using q u by (intro round_int_le) simp
  then have "rat_of_int (round_int (q / u)) * u \<le> 2 * q"
    using u by (simp add: pos_le_divide_eq)
  then show ?thesis
    using False by (simp add: round_mag_def u_def)
qed

lemma bnd_round_sm:
  assumes "\<bar>q\<bar> \<le> 2 ^ k" and "k < 1023"
  shows "bnd (Suc k) (round_sm s q)"
proof -
  have a: "round_mag \<bar>q\<bar> \<le> 2 ^ Suc k"
    using round_mag_le [of "\<bar>q\<bar>"] assms(1) by simp
  have "(2::rat) ^ Suc k < 2 ^ 1024"
    using assms(2) by (intro power_strict_increasing) simp_all
  with a have "\<not> 2 ^ 1024 \<le> round_mag \<bar>q\<bar>" by linarith
  moreover have "0 \<le> round_mag \<bar>q\<bar>" by (simp add: round_mag_nonneg)
  ultimately show ?thesis
    using a by (simp add: bnd_def round_sm_def Let_def)
qed

lemma bnd_mono:
  assumes "bnd j a" and "j \<le> k"
  shows "bnd k a"
proof -
  from assms(1) obtain s m where a: "a = Fin s m" "\<bar>m\<bar> \<le> 2 ^ j"
    unfolding bnd_def by blast
  have "(2::rat) ^ j \<le> 2 ^ k"
    using assms(2) by (intro power_increasing) simp_all
  with a(2) have "\<bar>m\<bar> \<le> 2 ^ k" by (rule order_trans)
  with a(1) show ?thesis by (auto simp: bnd_def)
qed

lemma bnd_not_nan: "bnd k a \<Longrightarrow> \<not> is_nan a"
  by (auto simp: bnd_def)

lemma bnd_fneg [simp]: "bnd k (fneg a) = bnd k a"
  by (cases a) (auto simp: bnd_def)

lemma bnd_fmul:
  assumes "bnd j a" and "bnd k b" and "j + k < 1023"
  shows "bnd (Suc (j + k)) (fmul a b)"
proof -
  from assms obtain s m t n where a: "a = Fin s m" "\<bar>m\<bar> \<le> 2 ^ j" and b: "b = Fin t n" "\<bar>n\<bar> \<le> 2 ^ k"
    unfolding bnd_def by blast
  have "\<bar>m * n\<bar> \<le> 2 ^ j * 2 ^ k"
    unfolding abs_mult using a(2) b(2) by (intro mult_mono) simp_all
  then have "\<bar>m * n\<bar> \<le> 2 ^ (j + k)" by (simp add: power_add)
  then show ?thesis
    unfolding a b fmul.simps using assms(3) by (intro bnd_round_sm)
qed

lemma bnd_fadd:
  assumes "bnd k a" and "bnd k b" and "k < 1022"
  shows "bnd (Suc (Suc k)) (fadd a b)"
proof -
  from assms obtain s m t n where a: "a = Fin s m" "\<bar>m\<bar> \<le> 2 ^ k" and b: "b = Fin t n" "\<bar>n\<bar> \<le> 2 ^ k"
    unfolding bnd_def by blast
  define v where "v = valof (Fin s m) + valof (Fin t n)"
  have "\<bar>v\<bar> \<le> \<bar>m\<bar> + \<bar>n\<bar>" unfolding v_def by auto
  with a(2) b(2) have v: "\<bar>v\<bar> \<le> 2 ^ Suc k" by simp
  have "bnd (Suc (Suc k)) (round_sm (v < 0) v)"
    using v assms(3) by (intro bnd_round_sm) simp_all
  moreover have "bnd (Suc (Suc k)) (Fin (s \<and> t) 0)"
    by (simp add: bnd_def)
  ultimately show ?thesis
    unfolding a b fadd.simps Let_def v_def [symmetric] by simp
qed

lemma bnd_fsub:
  assumes "bnd k a" and "bnd k b" and "k < 1022"
  shows "bnd (Suc (Suc k)) (fsub a b)"
  unfolding fsub_def using assms by (intro bnd_fadd) simp_all

lemma bnd_lit:
  assumes "0 \<le> q" and "q \<le> 2 ^ k" and "k < 1023"
  shows "bnd (Suc k) (lit q)"
  unfolding lit_def using assms by (intro bnd_round_sm) simp_all

lemma bnd_of_small:
  assumes "flt (pnfft_fabs a) (lit q)" and "0 \<le> q" and "2 * q \<le> 1"
  shows "bnd 0 a"
proof -
  have r: "round_mag \<bar>q\<bar> \<le> 1" "0 \<le> round_mag \<bar>q\<bar>"
    using round_mag_le [of "\<bar>q\<bar>"] round_mag_nonneg [of "\<bar>q\<bar>"] assms(2,3) by simp_all
  then have "\<not> 2 ^ 1024 \<le> round_mag \<bar>q\<bar>" by simp
  then have "lit q = Fin False (round_mag \<bar>q\<bar>)"
    by (simp add: lit_def round_sm_def)
  with assms(1) r show ?thesis
    by (cases a) (auto simp: bnd_def)
qed

lemma cmul_alt: "cmul E u v =
   (if is_nan (fst (cmul_formula u v)) \<and> is_nan (snd (cmul_formula u v))
    then cx_mul_recover E u v else cmul_formula u v)"
  by (simp add: cmul_def Let_def)

lemma cbnd_mono: "cbnd j u \<Longrightarrow> j \<le> k \<Longrightarrow> cbnd k u"
  by (auto simp: cbnd_def intro: bnd_mono)

lemma cbnd_cneg [simp]: "cbnd k (cneg u) = cbnd k u"
  by (simp add: cbnd_def cneg_def)

lemma cbnd_cmul_formula:
  assumes "cbnd j u" and "cbnd k v" and "j + k < 1021"
  shows "cbnd (j + k + 3) (cmul_formula u v)"
proof -
  have p: "bnd (Suc (j + k)) (fmul (fst u) (fst v))" "bnd (Suc (j + k)) (fmul (snd u) (snd v))"
      "bnd (Suc (j + k)) (fmul (fst u) (snd v))" "bnd (Suc (j + k)) (fmul (snd u) (fst v))"
    using assms by (auto simp: cbnd_def intro!: bnd_fmul)
  have "bnd (Suc (Suc (Suc (j + k)))) (fsub (fmul (fst u) (fst v)) (fmul (snd u) (snd v)))"
    using p assms(3) by (intro bnd_fsub) simp_all
  moreover have "bnd (Suc (Suc (Suc (j + k)))) (fadd (fmul (fst u) (snd v)) (fmul (snd u) (fst v)))"
    using p assms(3) by (intro bnd_fadd) simp_all
  ultimately show ?thesis
    by (simp add: cbnd_def cmul_formula_def eval_nat_numeral)
qed

lemma cmul_of_cbnd:
  assumes "cbnd j u" and "cbnd k v" and "j + k < 1021"
  shows "cmul E u v = cmul_formula u v"
  using cbnd_cmul_formula [OF assms] by (auto simp: cmul_alt cbnd_def dest: bnd_not_nan)

lemma cbnd_rc_add:
  assumes "bnd k r" and "cbnd k v" and "k < 1022"
  shows "cbnd (k + 2) (rc_add r v)"
  using assms bnd_fadd [of k r "fst v"] bnd_mono [of k "snd v" "k + 2"]
  by (simp add: cbnd_def rc_add_def)

lemma cbnd_cr_mul:
  assumes "cbnd j u" and "bnd k r" and "j + k < 1023"
  shows "cbnd (j + k + 1) (cr_mul u r)"
  using assms by (auto simp: cbnd_def cr_mul_def intro!: bnd_fmul)

lemma bnd_lit_le1:
  assumes "0 \<le> q" and "q \<le> 1"
  shows "bnd 1 (lit q)"
  using bnd_lit [of q 0] assms by simp

lemma cdawson_taylor_of_cbnd:
  assumes z: "cbnd 0 z" and m: "cbnd 5 mz2"
  shows "cdawson_taylor E z mz2 = cdawson_taylor_formula z mz2"
proof -
  define c1 where "c1 = lit (6666666666666666666666666666666666666667 / 10 ^ 40)"
  define c2 where "c2 = lit (2666666666666666666666666666666666666667 / 10 ^ 40)"
  have c: "bnd 1 c1" "bnd 1 c2" "bnd 1 (lit 1)"
    unfolding c1_def c2_def by (intro bnd_lit_le1; simp)+
  have a: "cbnd 7 (cr_mul mz2 c2)"
    using cbnd_cr_mul [OF m c(2)] by simp
  have b: "cbnd 9 (rc_add c1 (cr_mul mz2 c2))"
    using cbnd_rc_add [OF bnd_mono [OF c(1), of 7] a] by simp
  have d: "cbnd 17 (cmul_formula mz2 (rc_add c1 (cr_mul mz2 c2)))"
    using cbnd_cmul_formula [OF m b] by simp
  have e: "cbnd 19 (rc_add (lit 1) (cmul_formula mz2 (rc_add c1 (cr_mul mz2 c2))))"
    using cbnd_rc_add [OF bnd_mono [OF c(3), of 17] d] by simp
  have "cmul E mz2 (rc_add c1 (cr_mul mz2 c2)) = cmul_formula mz2 (rc_add c1 (cr_mul mz2 c2))"
    using m b by (rule cmul_of_cbnd) simp
  moreover have "cmul E z (rc_add (lit 1) (cmul_formula mz2 (rc_add c1 (cr_mul mz2 c2))))
      = cmul_formula z (rc_add (lit 1) (cmul_formula mz2 (rc_add c1 (cr_mul mz2 c2))))"
    using z e by (rule cmul_of_cbnd) simp
  ultimately show ?thesis
    by (simp add: cdawson_taylor_def cdawson_taylor_formula_def c1_def c2_def)
qed

lemma ceqz_refl [simp]: "ceqz u u"
  by (simp add: ceqz_def)

lemma ceqz_cmul_formula_neg:
  assumes "ceqz v' v"
  shows "ceqz (cmul_formula (cneg u) v') (cneg (cmul_formula u v))"
proof -
  from assms have v: "eqz (fst v') (fst v)" "eqz (snd v') (snd v)"
    by (simp_all add: ceqz_def)
  have "negz (fsub (fneg (fmul (fst u) (fst v'))) (fneg (fmul (snd u) (snd v'))))
             (fsub (fmul (fst u) (fst v)) (fmul (snd u) (snd v)))"
    using v by (intro negz_fsub negz_fneg eqz_fmul eqz_refl)
  moreover have "negz (fadd (fneg (fmul (fst u) (snd v'))) (fneg (fmul (snd u) (fst v'))))
             (fadd (fmul (fst u) (snd v)) (fmul (snd u) (fst v)))"
    using v by (intro negz_fadd negz_fneg eqz_fmul eqz_refl)
  ultimately show ?thesis
    by (simp add: ceqz_def cmul_formula_def cneg_def negz_def)
qed

lemma ceqz_cmul_formula:
  assumes "ceqz u' u" and "ceqz v' v"
  shows "ceqz (cmul_formula u' v') (cmul_formula u v)"
  using assms by (auto simp: ceqz_def cmul_formula_def intro!: eqz_fsub eqz_fadd eqz_fmul)

lemma ceqz_rc_add: "ceqz v' v \<Longrightarrow> ceqz (rc_add r v') (rc_add r v)"
  by (auto simp: ceqz_def rc_add_def intro!: eqz_fadd)

lemma ceqz_cr_mul: "ceqz u' u \<Longrightarrow> ceqz (cr_mul u' r) (cr_mul u r)"
  by (auto simp: ceqz_def cr_mul_def intro!: eqz_fmul)

lemma cdawson_taylor_formula_odd:
  assumes "ceqz mz2' mz2"
  shows "ceqz (cdawson_taylor_formula (cneg z) mz2') (cneg (cdawson_taylor_formula z mz2))"
  unfolding cdawson_taylor_formula_def
  using assms by (intro ceqz_cmul_formula_neg ceqz_rc_add ceqz_cmul_formula ceqz_cr_mul)

lemma flt_fneg_fneg [simp]: "flt (fneg a) (fneg b) = flt b a"
  by (cases a; cases b) auto

lemma fle_fneg_fneg [simp]: "fle (fneg a) (fneg b) = fle b a"
  by (cases a; cases b) auto

lemma fge_fneg_zero:
  "\<not> is_nan y \<Longrightarrow> \<not> is_zero y \<Longrightarrow> fge (fneg y) (Fin False 0) = (\<not> fge y (Fin False 0))"
  by (cases y) (auto simp: fge_def)

lemma fge_not_nan: "fge y c \<Longrightarrow> \<not> is_nan y"
  by (cases y) (auto simp: fge_def)

lemma flt_fabs_of_pos: "fge y (Fin False 0) \<Longrightarrow> flt y c \<Longrightarrow> flt (pnfft_fabs y) c"
  by (cases y; cases c) (auto simp: fge_def split: if_splits)

lemma cneg_pair [simp]: "cneg (x, y) = (fneg x, fneg y)"
  by (simp add: cneg_def)

lemma cneg_cneg [simp]: "cneg (cneg z) = z"
  by (simp add: cneg_def)

lemma cdawson_real_axis: "is_zero y \<Longrightarrow> cdawson E (x, y) = (fmul spi2 (im_w_of_x E x), fneg y)"
  by (simp add: cdawson_def cdawson_disp_def pnfft_creal_def pnfft_cimag_def CNUM_def)

lemma cdawson_imag_axis:
  "\<not> is_zero y \<Longrightarrow> is_zero x \<Longrightarrow>
   cdawson E (x, y) =
     (x, if flt (fmul y y) (lit (25 / 10 ^ 6)) then
           fmul y (fadd (lit 1) (fmul (fmul y y)
             (fadd (lit (6666666666666666666666666666666666666667 / 10 ^ 40))
                (fmul (fmul y y) (lit (26666666666666666666666666666666666667 / 10 ^ 38))))))
         else fmul spi2 (if fge y (lit 0) then fsub (pnfft_exp E (fmul y y)) (erfcx E y)
                         else fsub (erfcx E (fneg y)) (pnfft_exp E (fmul y y))))"
  by (simp add: cdawson_def cdawson_disp_def pnfft_creal_def pnfft_cimag_def CNUM_def Let_def)

lemma cdawson_upper:
  "\<not> is_zero y \<Longrightarrow> \<not> is_zero x \<Longrightarrow> fge y (lit 0) \<Longrightarrow>
   cdawson E (x, y) =
     (if flt y (lit (5 / 10 ^ 3)) \<and> flt (pnfft_fabs x) (lit (5 / 10 ^ 3)) then
        cdawson_taylor E (x, y) (mRe_z2 x y, mIm_z2 x y)
      else if flt y (lit (5 / 10 ^ 3)) \<and> flt (pnfft_fabs (mIm_z2 x y)) (lit (5 / 10 ^ 3)) then
        snd (cdawson_taylor_realaxis E x y)
      else cdawson_direct E (x, y))"
  by (simp add: cdawson_def cdawson_disp_def pnfft_creal_def pnfft_cimag_def CNUM_def Let_def
      mRe_z2_def mIm_z2_def cdawson_direct_def)

lemma cdawson_lower:
  "\<not> is_zero y \<Longrightarrow> \<not> is_zero x \<Longrightarrow> \<not> fge y (lit 0) \<Longrightarrow> \<not> is_nan y \<Longrightarrow>
   cdawson E (x, y) =
     (if fgt y (fneg (lit (5 / 10 ^ 3))) \<and> flt (pnfft_fabs x) (lit (5 / 10 ^ 3)) then
        cdawson_taylor E (x, y) (mRe_z2 x y, mIm_z2 x y)
      else if fgt y (fneg (lit (5 / 10 ^ 3))) \<and> flt (pnfft_fabs (mIm_z2 x y)) (lit (5 / 10 ^ 3)) then
        snd (cdawson_taylor_realaxis E x y)
      else cdawson_mirror E (x, y))"
  by (simp add: cdawson_def cdawson_disp_def pnfft_creal_def pnfft_cimag_def CNUM_def Let_def
      mRe_z2_def mIm_z2_def cdawson_mirror_def)

lemma cdawson_nan_off_axis:
  "\<not> is_zero x \<Longrightarrow> cdawson E (x, NaN) = (NaN, NaN)"
  by (simp add: cdawson_def cdawson_disp_def pnfft_creal_def pnfft_cimag_def CNUM_def Let_def
      fge_def fgt_def)

lemma mIm_z2_fneg [simp]: "mIm_z2 (fneg x) (fneg y) = mIm_z2 x y"
  by (simp add: mIm_z2_def)

lemma mRe_z2_fneg: "eqz (mRe_z2 (fneg x) (fneg y)) (mRe_z2 x y)"
  unfolding mRe_z2_def
  by (intro eqz_fmul_negz negz_fsub negz_fadd negz_fneg eqz_refl)

lemma mz2_cbnd:
  assumes "bnd 0 x" and "bnd 0 y"
  shows "cbnd 5 (mRe_z2 x y, mIm_z2 x y)"
proof -
  have "bnd 2 (fsub y x)" "bnd 2 (fadd x y)"
    using bnd_fsub [OF assms(2,1)] bnd_fadd [OF assms] by (simp_all add: eval_nat_numeral)
  then have a: "bnd 5 (mRe_z2 x y)"
    using bnd_fmul [of 2 "fsub y x" 2 "fadd x y"] by (simp add: mRe_z2_def eval_nat_numeral)
  have "bnd 2 (lit 2)"
    using bnd_lit [of 2 1] by (simp add: eval_nat_numeral)
  then have "bnd 3 (fmul (fneg (lit 2)) x)"
    using bnd_fmul [of 2 "fneg (lit 2)" 0 x] assms(1) by (simp add: eval_nat_numeral)
  then have "bnd 4 (mIm_z2 x y)"
    using bnd_fmul [of 3 "fmul (fneg (lit 2)) x" 0 y] assms(2)
    by (simp add: mIm_z2_def eval_nat_numeral)
  then have "bnd 5 (mIm_z2 x y)" by (rule bnd_mono) simp
  with a show ?thesis by (simp add: cbnd_def)
qed

lemma cdawson_taylor_odd:
  assumes "bnd 0 x" and "bnd 0 y"
  shows "ceqz (cdawson_taylor E (fneg x, fneg y) (mRe_z2 (fneg x) (fneg y), mIm_z2 x y))
              (cneg (cdawson_taylor E (x, y) (mRe_z2 x y, mIm_z2 x y)))"
proof -
  have z: "cbnd 0 (x, y)" "cbnd 0 (fneg x, fneg y)"
    using assms by (simp_all add: cbnd_def)
  have m: "cbnd 5 (mRe_z2 x y, mIm_z2 x y)"
    using assms by (intro mz2_cbnd)
  have "cbnd 5 (mRe_z2 (fneg x) (fneg y), mIm_z2 (fneg x) (fneg y))"
    using assms by (intro mz2_cbnd) simp_all
  then have m': "cbnd 5 (mRe_z2 (fneg x) (fneg y), mIm_z2 x y)"
    by simp
  have "ceqz (mRe_z2 (fneg x) (fneg y), mIm_z2 x y) (mRe_z2 x y, mIm_z2 x y)"
    by (simp add: ceqz_def mRe_z2_fneg)
  from cdawson_taylor_formula_odd [OF this, of "(x, y)"]
  show ?thesis
    unfolding cdawson_taylor_of_cbnd [OF z(1) m] cdawson_taylor_of_cbnd [OF z(2) m']
    by simp
qed

lemma cdawson_realaxis_huge_odd:
  "cdawson_realaxis_huge (fneg x) (fneg y) = cneg (cdawson_realaxis_huge x y)"
  by (simp add: cdawson_realaxis_huge_def CNUM_def Let_def)

lemma cdawson_realaxis_cf_odd:
  "cdawson_realaxis_cf (fneg x) (fneg y) = cneg (cdawson_realaxis_cf x y)"
  by (simp add: cdawson_realaxis_cf_def CNUM_def rc_mul_def Let_def)

lemma cdawson_realaxis_taylor_odd:
  assumes "\<forall>t. im_w_of_x E (fneg t) = fneg (im_w_of_x E t)"
  shows "ceqz (cdawson_realaxis_taylor E (fneg x) (fneg y)) (cneg (cdawson_realaxis_taylor E x y))"
proof -
  define D where "D = fmul spi2 (im_w_of_x E x)"
  have D: "fmul spi2 (im_w_of_x E (fneg x)) = fneg D"
    using assms by (simp add: D_def)
  show ?thesis
    unfolding cdawson_realaxis_taylor_def Let_def D D_def [symmetric] CNUM_def ceqz_def
    apply (simp add: negz_def [symmetric])
    apply (intro negz_fadd negz_fsub negz_fneg negz_fmul_r eqz_refl)
    done
qed

lemma cdawson_taylor_realaxis_odd:
  assumes "\<forall>t. im_w_of_x E (fneg t) = fneg (im_w_of_x E t)"
  shows "ceqz (snd (cdawson_taylor_realaxis E (fneg x) (fneg y)))
              (cneg (snd (cdawson_taylor_realaxis E x y)))"
  using cdawson_realaxis_taylor_odd [OF assms, of x y]
  by (simp add: cdawson_taylor_realaxis_def cdawson_realaxis_huge_odd cdawson_realaxis_cf_odd
      Let_def)

lemma cexp_eqz:
  assumes "\<forall>v. pnfft_cexp E (Fin True 0, v) = pnfft_cexp E (Fin False 0, v)"
    and "eqz a b"
  shows "pnfft_cexp E (a, v) = pnfft_cexp E (b, v)"
proof (cases "a = b")
  case True
  then show ?thesis by simp
next
  case False
  with assms(2) obtain s t where "a = Fin s 0" "b = Fin t 0" "s \<noteq> t"
    by (cases a; cases b) (auto simp: eqz_def)
  then show ?thesis
    using assms(1) by (cases s; cases t) simp_all
qed

lemma negz_fneg_fneg: "negz a b \<Longrightarrow> negz (fneg a) (fneg b)"
  unfolding negz_def by (rule eqz_fneg)

lemma cdawson_mirror_odd:
  assumes "\<forall>v. pnfft_cexp E (Fin True 0, v) = pnfft_cexp E (Fin False 0, v)"
  shows "ceqz (cdawson_mirror E (fneg x, fneg y)) (cneg (cdawson_direct E (x, y)))"
proof -
  define e where "e = pnfft_cexp E (mRe_z2 x y, mIm_z2 x y)"
  define w where "w = w_of_z E (x, y)"
  have e: "pnfft_cexp E (mRe_z2 (fneg x) (fneg y), mIm_z2 x y) = e"
    unfolding e_def by (rule cexp_eqz [OF assms mRe_z2_fneg])
  have "negz (fmul spi2 (fsub (fst w) (fst e))) (fmul spi2 (fsub (fst e) (fst w)))"
    by (intro negz_fmul_r eqz_refl fsub_swap)
  moreover
  have "negz (fmul spi2 (fneg (fsub (snd w) (snd e)))) (fmul spi2 (fneg (fsub (snd e) (snd w))))"
    by (intro negz_fmul_r negz_fneg_fneg eqz_refl fsub_swap)
  ultimately show ?thesis
    by (simp add: cdawson_mirror_def cdawson_direct_def e e_def [symmetric] w_def [symmetric]
        csub_def rc_mul_def ceqz_def negz_def)
qed

lemma ceqz_flip: "ceqz a (cneg b) \<Longrightarrow> ceqz b (cneg a)"
  using negz_swap [of "fst a" "fst b"] negz_swap [of "snd a" "snd b"]
  by (simp add: ceqz_def cneg_def negz_def)

lemma cdawson_lower_fneg:
  assumes "fge y (lit 0)" and "\<not> is_zero y" and "\<not> is_zero x"
  shows "cdawson E (fneg x, fneg y) =
     (if flt y (lit (5 / 10 ^ 3)) \<and> flt (pnfft_fabs x) (lit (5 / 10 ^ 3)) then
        cdawson_taylor E (fneg x, fneg y) (mRe_z2 (fneg x) (fneg y), mIm_z2 x y)
      else if flt y (lit (5 / 10 ^ 3)) \<and> flt (pnfft_fabs (mIm_z2 x y)) (lit (5 / 10 ^ 3)) then
        snd (cdawson_taylor_realaxis E (fneg x) (fneg y))
      else cdawson_mirror E (fneg x, fneg y))"
proof -
  have ny: "\<not> is_nan y" using assms(1) by (rule fge_not_nan)
  then have ng: "\<not> fge (fneg y) (lit 0)"
    using assms(1,2) by (simp add: fge_fneg_zero)
  have "fgt (fneg y) (fneg (lit (5 / 10 ^ 3))) = flt y (lit (5 / 10 ^ 3))"
    unfolding fgt_def by (rule flt_fneg_fneg)
  then show ?thesis
    using cdawson_lower [of "fneg y" "fneg x" E] assms(2,3) ny ng
    by (simp only: is_zero_fneg is_nan_fneg fabs_fneg mIm_z2_fneg not_False_eq_True simp_thms)
qed

lemma cdawson_odd_upper:
  assumes odd: "\<forall>t. im_w_of_x E (fneg t) = fneg (im_w_of_x E t)"
    and cexp: "\<forall>v. pnfft_cexp E (Fin True 0, v) = pnfft_cexp E (Fin False 0, v)"
    and y: "fge y (lit 0)" "\<not> is_zero y" and x: "\<not> is_zero x"
  shows "ceqz (cdawson E (fneg x, fneg y)) (cneg (cdawson E (x, y)))"
proof -
  define c where "c = lit (5 / 10 ^ 3)"
  note U = cdawson_upper [OF y(2) x y(1), of E, folded c_def]
  note L = cdawson_lower_fneg [OF y x, of E, folded c_def]
  consider (taylor) "flt y c \<and> flt (pnfft_fabs x) c"
    | (realaxis) "\<not> (flt y c \<and> flt (pnfft_fabs x) c)"
        "flt y c \<and> flt (pnfft_fabs (mIm_z2 x y)) c"
    | (direct) "\<not> (flt y c \<and> flt (pnfft_fabs x) c)"
        "\<not> (flt y c \<and> flt (pnfft_fabs (mIm_z2 x y)) c)"
    by blast
  then show ?thesis
  proof cases
    case taylor
    then have "flt (pnfft_fabs y) c" using y(1) by (simp add: flt_fabs_of_pos)
    then have yb: "bnd 0 y"
      unfolding c_def by (intro bnd_of_small [of y "5 / 10 ^ 3"]) simp_all
    have "bnd 0 x"
      using taylor unfolding c_def by (intro bnd_of_small [of x "5 / 10 ^ 3"]) simp_all
    from this yb have "ceqz (cdawson_taylor E (fneg x, fneg y) (mRe_z2 (fneg x) (fneg y), mIm_z2 x y))
        (cneg (cdawson_taylor E (x, y) (mRe_z2 x y, mIm_z2 x y)))"
      by (rule cdawson_taylor_odd)
    then show ?thesis
      by (simp only: U L taylor if_True simp_thms)
  next
    case realaxis
    then have r: "flt y c" "\<not> flt (pnfft_fabs x) c" "flt (pnfft_fabs (mIm_z2 x y)) c"
      by auto
    from cdawson_taylor_realaxis_odd [OF odd, of x y] show ?thesis
      by (simp only: U L r if_True if_False simp_thms)
  next
    case direct
    from cdawson_mirror_odd [OF cexp, of x y] show ?thesis
      by (simp only: U L direct if_False simp_thms)
  qed
qed

section \<open>The return that is reached\<close>

lemma erfi_fires_iff: "erfi_fires b x \<longleftrightarrow> fst (erfi_disp E x) = b"
  by (cases b) (auto simp: erfi_fires_def erfi_disp_def)

lemma dawson_fires_iff: "dawson_fires b x \<longleftrightarrow> fst (dawson_disp E x) = b"
  by (cases b) (auto simp: dawson_fires_def dawson_disp_def)

lemma voigt_fires_iff:
  "voigt_fires b x sigma gamma \<longleftrightarrow> fst (voigt_disp E x sigma gamma) = b"
  by (cases b) (auto simp: voigt_fires_def voigt_disp_def Let_def)

lemma cerf_fires_iff: "cerf_fires b z \<longleftrightarrow> fst (cerf_disp E z) = b"
  by (cases b) (auto simp: cerf_fires_def cerf_disp_def Let_def)

lemma cerfc_fires_iff: "cerfc_fires b z \<longleftrightarrow> fst (cerfc_disp E z) = b"
  by (cases b) (auto simp: cerfc_fires_def cerfc_disp_def Let_def)

lemma cdawson_fires_iff: "cdawson_fires b z \<longleftrightarrow> fst (cdawson_disp E z) = b"
  by (cases b) (auto simp: cdawson_fires_def cdawson_disp_def cdawson_taylor_realaxis_def Let_def)

lemma classified_all: "classified r"
  by (cases r) (simp_all add: classified_def)

section \<open>The return reached at the negated argument\<close>

lemma fgt_fneg_fneg [simp]: "fgt (fneg a) (fneg b) = flt a b"
  by (simp add: fgt_def)

lemma flt_fneg_left: "flt (fneg a) b = fgt a (fneg b)"
  by (cases a; cases b) (auto simp: fgt_def)

lemma fge_NaN [simp]: "\<not> fge NaN c"
  by (simp add: fge_def)

lemma fgt_NaN [simp]: "\<not> fgt NaN c"
  by (cases c) (simp_all add: fgt_def)

lemma cdawson_fires_cneg:
  "cdawson_fires b (fneg x, fneg y) = cdawson_fires (cdawson_branch_mirror b) (x, y)"
proof (cases "is_nan y \<or> is_zero y")
  case True
  then show ?thesis
  proof
    assume "is_nan y"
    then have "y = NaN" by (cases y) auto
    then show ?thesis
      by (cases b) (simp_all add: cdawson_fires_def pnfft_creal_def pnfft_cimag_def Let_def)
  next
    assume "is_zero y"
    then show ?thesis
      by (cases b) (simp_all add: cdawson_fires_def pnfft_creal_def pnfft_cimag_def Let_def)
  qed
next
  case False
  then have g: "fge (fneg y) (Fin False 0) = (\<not> fge y (Fin False 0))"
    by (simp add: fge_fneg_zero)
  show ?thesis
    using False
    by (cases b)
      (auto simp: cdawson_fires_def pnfft_creal_def pnfft_cimag_def Let_def g flt_fneg_left)
qed

lemma cdawson_branch_cneg:
  "fst (cdawson_disp E (cneg z)) = cdawson_branch_mirror (fst (cdawson_disp E z))"
proof -
  obtain x y where z: "z = (x, y)" by (cases z)
  have "cdawson_fires (cdawson_branch_mirror (fst (cdawson_disp E (fneg x, fneg y)))) (x, y)"
    unfolding cdawson_fires_cneg [symmetric] by (simp add: cdawson_fires_iff [of _ _ E])
  then have "fst (cdawson_disp E (x, y)) =
      cdawson_branch_mirror (fst (cdawson_disp E (fneg x, fneg y)))"
    by (simp add: cdawson_fires_iff [of _ _ E])
  then show ?thesis
    by (cases "fst (cdawson_disp E (fneg x, fneg y))") (simp_all add: z)
qed

text \<open>The value of the returns that involve no external function, or only NaN.\<close>

lemma cdawson_cf_value:
  assumes "fst (cdawson_disp E z) = Cdawson_cf"
  shows "cdawson E z = cdawson_realaxis_cf (fst z) (snd z)"
proof -
  from assms have "cdawson_fires Cdawson_cf z"
    by (simp add: cdawson_fires_iff [of _ _ E])
  then show ?thesis
    by (cases "fge (snd z) (lit 0)")
      (simp_all add: cdawson_fires_def cdawson_def cdawson_disp_def cdawson_taylor_realaxis_def
        pnfft_creal_def pnfft_cimag_def Let_def)
qed

lemma cdawson_cf_huge_value:
  assumes "fst (cdawson_disp E z) = Cdawson_cf_huge"
  shows "cdawson E z = cdawson_realaxis_huge (fst z) (snd z)"
proof -
  from assms have "cdawson_fires Cdawson_cf_huge z"
    by (simp add: cdawson_fires_iff [of _ _ E])
  then show ?thesis
    by (cases "fge (snd z) (lit 0)")
      (simp_all add: cdawson_fires_def cdawson_def cdawson_disp_def cdawson_taylor_realaxis_def
        pnfft_creal_def pnfft_cimag_def Let_def)
qed

lemma cdawson_imag_taylor_value:
  assumes "fst (cdawson_disp E z) = Cdawson_imag_taylor"
  shows "cdawson E z =
     (fst z, fmul (snd z) (fadd (lit 1) (fmul (fmul (snd z) (snd z))
             (fadd (lit (6666666666666666666666666666666666666667 / 10 ^ 40))
                (fmul (fmul (snd z) (snd z))
                   (lit (26666666666666666666666666666666666667 / 10 ^ 38)))))))"
proof -
  from assms have "cdawson_fires Cdawson_imag_taylor z"
    by (simp add: cdawson_fires_iff [of _ _ E])
  then show ?thesis
    by (simp add: cdawson_fires_def cdawson_def cdawson_disp_def
        pnfft_creal_def pnfft_cimag_def Let_def CNUM_def)
qed

lemma cdawson_nan_value:
  assumes "fst (cdawson_disp E z) = Cdawson_nan"
  shows "cdawson E z = (NaN, NaN)"
proof -
  obtain x y where z: "z = (x, y)" by (cases z)
  from assms have "cdawson_fires Cdawson_nan z"
    by (simp add: cdawson_fires_iff [of _ _ E])
  then have "\<not> is_zero x" and "is_nan y"
    by (simp_all add: cdawson_fires_def pnfft_creal_def pnfft_cimag_def Let_def z)
  moreover from this have "y = NaN" by (cases y) auto
  ultimately show ?thesis
    by (simp add: z cdawson_nan_off_axis)
qed

text \<open>In these returns no sum can cancel to a zero of the other sign: oddness is exact.\<close>

lemma cdawson_odd_exact:
  assumes "fst (cdawson_disp E z) \<in>
             {Cdawson_imag_taylor, Cdawson_cf_huge, Cdawson_cf, Cdawson_nan}"
  shows "cdawson E (cneg z) = cneg (cdawson E z)"
proof -
  obtain x y where z: "z = (x, y)" by (cases z)
  from assms consider "fst (cdawson_disp E z) = Cdawson_imag_taylor"
    | "fst (cdawson_disp E z) = Cdawson_cf_huge" | "fst (cdawson_disp E z) = Cdawson_cf"
    | "fst (cdawson_disp E z) = Cdawson_nan"
    by auto
  then show ?thesis
  proof cases
    case 1
    then have "fst (cdawson_disp E (cneg z)) = Cdawson_imag_taylor"
      by (simp add: cdawson_branch_cneg)
    from cdawson_imag_taylor_value [OF this] cdawson_imag_taylor_value [OF 1]
    show ?thesis by (simp add: z)
  next
    case 2
    then have "fst (cdawson_disp E (cneg z)) = Cdawson_cf_huge"
      by (simp add: cdawson_branch_cneg)
    from cdawson_cf_huge_value [OF this] cdawson_cf_huge_value [OF 2]
    show ?thesis by (simp add: z cdawson_realaxis_huge_odd)
  next
    case 3
    then have "fst (cdawson_disp E (cneg z)) = Cdawson_cf"
      by (simp add: cdawson_branch_cneg)
    from cdawson_cf_value [OF this] cdawson_cf_value [OF 3]
    show ?thesis by (simp add: z cdawson_realaxis_cf_odd)
  next
    case 4
    then have "fst (cdawson_disp E (cneg z)) = Cdawson_nan"
      by (simp add: cdawson_branch_cneg)
    from cdawson_nan_value [OF this] cdawson_nan_value [OF 4]
    show ?thesis by (simp add: cneg_def)
  qed
qed

lemma eqz_feq: "eqz a b \<Longrightarrow> \<not> is_nan b \<Longrightarrow> feq a b"
  by (cases a; cases b) (auto simp: eqz_def)

lemma cdawson_imag_axis_real_part:
  "is_zero x \<Longrightarrow> \<not> is_zero y \<Longrightarrow> fst (cdawson E (x, y)) = x"
  by (simp add: cdawson_imag_axis)

lemma cdawson_real_axis_branch:
  "is_zero (snd z) \<longleftrightarrow> fst (cdawson_disp E z) = Cdawson_real_axis"
  using cdawson_fires_iff [of Cdawson_real_axis z E]
  by (simp add: cdawson_fires_def pnfft_cimag_def)

section \<open>The branches of cdawson at \<open>x = 100\<close>\<close>




lemma cdawson_at_100_1em4:
  "fst (cdawson_disp E (lit 100, lit (1 / 10 ^ 4))) = Cdawson_direct"
  by (simp add: cdawson_disp_def pnfft_creal_def pnfft_cimag_def fsub_def fge_def fgt_def num_eval)

lemma cdawson_at_100_1em5:
  "fst (cdawson_disp E (lit 100, lit (1 / 10 ^ 5))) = Cdawson_cf"
  by (simp add: cdawson_disp_def cdawson_taylor_realaxis_def pnfft_creal_def pnfft_cimag_def fsub_def fge_def fgt_def num_eval)

text \<open>The condition of the return for \<open>1600 < x * x \<le> 25e14\<close>, and its value.\<close>

lemma lit_5em3: "lit (5 / 10 ^ 3) = Fin False (5764607523034235 / 2 ^ 60)"
  by (simp add: num_eval)

lemma near_iff_fabs:
  assumes "0 < q"
  shows "(if fge y (Fin False 0) then flt y (Fin False q) else fgt y (fneg (Fin False q))) =
         flt (pnfft_fabs y) (Fin False q)"
  using assms by (cases y) (auto simp: fge_def fgt_def)

lemma cdawson_fires_cf:
  "cdawson_fires Cdawson_cf (x, y) \<longleftrightarrow>
     \<not> is_zero y \<and> \<not> is_zero x \<and> flt (pnfft_fabs y) (lit (5 / 10 ^ 3)) \<and>
     \<not> flt (pnfft_fabs x) (lit (5 / 10 ^ 3)) \<and>
     flt (pnfft_fabs (fmul (fmul (fneg (lit 2)) x) y)) (lit (5 / 10 ^ 3)) \<and>
     fgt (fmul x x) (lit 1600) \<and> \<not> fgt (fmul x x) (lit (25 * 10 ^ 14))"
  unfolding cdawson_fires_def pnfft_creal_def pnfft_cimag_def Let_def lit_5em3
  using near_iff_fabs [of "5764607523034235 / 2 ^ 60" y]
  by auto

lemma cdawson_disp_cf:
  "cdawson_disp E (x, y) = (Cdawson_cf, cdawson_realaxis_cf x y) \<longleftrightarrow>
     \<not> is_zero y \<and> \<not> is_zero x \<and> flt (pnfft_fabs y) (lit (5 / 10 ^ 3)) \<and>
     \<not> flt (pnfft_fabs x) (lit (5 / 10 ^ 3)) \<and>
     flt (pnfft_fabs (fmul (fmul (fneg (lit 2)) x) y)) (lit (5 / 10 ^ 3)) \<and>
     fgt (fmul x x) (lit 1600) \<and> \<not> fgt (fmul x x) (lit (25 * 10 ^ 14))"
proof -
  have "cdawson_disp E (x, y) = (Cdawson_cf, cdawson_realaxis_cf x y) \<longleftrightarrow>
        fst (cdawson_disp E (x, y)) = Cdawson_cf"
  proof
    assume "fst (cdawson_disp E (x, y)) = Cdawson_cf"
    moreover from this have "snd (cdawson_disp E (x, y)) = cdawson_realaxis_cf x y"
      using cdawson_cf_value [of E "(x, y)"] by (simp add: cdawson_def)
    ultimately show "cdawson_disp E (x, y) = (Cdawson_cf, cdawson_realaxis_cf x y)"
      by (simp add: prod_eq_iff)
  qed simp
  then show ?thesis
    unfolding cdawson_fires_cf [symmetric] by (simp add: cdawson_fires_iff [of _ _ E])
qed


lemma cdawson_realaxis_cf_100_2m16:
  "cdawson_realaxis_cf (lit 100) (lit (1 / 2 ^ 16)) =
   (Fin False (5764895796655621 / 2 ^ 60), Fin True (7379804710926121 / 2 ^ 83))"
  by (simp add: cdawson_realaxis_cf_def CNUM_def rc_mul_def fsub_def num_eval)



lemma cdawson_fires_100_2m16: "cdawson_fires Cdawson_cf (lit 100, lit (1 / 2 ^ 16))"
  unfolding cdawson_fires_cf by (simp add: fgt_def num_eval)




lemma cdawson_disp_100_2m16:
  "cdawson_disp E (lit 100, lit (1 / 2 ^ 16)) =
     (Cdawson_cf, (Fin False (5764895796655621 / 2 ^ 60), Fin True (7379804710926121 / 2 ^ 83)))"
  using cdawson_fires_100_2m16 cdawson_disp_cf [of E "lit 100" "lit (1 / 2 ^ 16)"]
  unfolding cdawson_fires_cf cdawson_realaxis_cf_100_2m16 by blast






section \<open>Properties\<close>

text \<open>
  C10.  For every complex \<open>z = x + iy\<close>, \<^verbatim>\<open>cerfcx(z)\<close> is exactly the kernel
  \<^verbatim>\<open>w_of_z\<close> applied to \<open>-y + ix\<close>: there is no case distinction, whatever the parts
  of \<open>z\<close> are (infinite, NaN, signed zeros).
\<close>

theorem cerfcx_is_kernel_call:
  "cerfcx E (x, y) = w_of_z E (fneg y, x)"
  by (simp add: cerfcx_def CNUM_def pnfft_creal_def pnfft_cimag_def)

text \<open>
  C9.  When \<open>x * x > 720\<close>, \<^verbatim>\<open>erfi(x)\<close> is \<open>+Infinity\<close> for \<open>x > 0\<close> and
  \<open>-Infinity\<close> otherwise, without any call of the exponential or of the kernel; when
  \<open>x * x \<le> 720\<close> it is the product \<open>exp(x * x) * im_w_of_x(x)\<close>.
\<close>

theorem erfi_saturation:
  "(fgt (fmul x x) (lit 720) \<and> fgt x (lit 0) \<longrightarrow> erfi E x = Infty False) \<and>
   (fgt (fmul x x) (lit 720) \<and> \<not> fgt x (lit 0) \<longrightarrow> erfi E x = Infty True) \<and>
   (fle (fmul x x) (lit 720) \<longrightarrow>
      erfi E x = fmul (pnfft_exp E (fmul x x)) (im_w_of_x E x))"
  by (auto simp: erfi_def erfi_disp_def fgt_def dest: fle_not_flt)

theorem erfi_saturation_witness:
  "erfi sample_env (Fin False 30) = Infty False \<and>
   erfi sample_env (Fin True 30) = Infty True \<and>
   erfi sample_env (Fin False 1) =
     fmul (pnfft_exp sample_env (fmul (Fin False 1) (Fin False 1)))
          (im_w_of_x sample_env (Fin False 1))"
proof -
  have a: "fgt (fmul (Fin False 30) (Fin False 30)) (lit 720) \<and> fgt (Fin False 30) (lit 0)"
    by (simp add: fgt_def round_eval)
  have b: "fgt (fmul (Fin True 30) (Fin True 30)) (lit 720) \<and> \<not> fgt (Fin True 30) (lit 0)"
    by (simp add: fgt_def round_eval)
  have c: "fle (fmul (Fin False 1) (Fin False 1)) (lit 720)"
    by (simp add: round_eval)
  from a b c
    erfi_saturation [of "Fin False 30" sample_env]
    erfi_saturation [of "Fin True 30" sample_env]
    erfi_saturation [of "Fin False 1" sample_env]
  show ?thesis by blast
qed

text \<open>
  C8.  With both widths zero (of either sign), \<^verbatim>\<open>voigt(x, 0, 0)\<close> is \<open>+Infinity\<close>
  when \<open>x\<close> is a zero (of either sign) and \<open>0\<close> for every other \<open>x\<close>.
\<close>

theorem voigt_delta:
  assumes "is_zero sigma" and "is_zero gamma"
  shows "voigt E x sigma gamma = (if is_zero x then Infty False else Fin False 0)"
  using assms by (simp add: voigt_def voigt_disp_def)

theorem voigt_delta_witness:
  "voigt sample_env (Fin True 0) (Fin False 0) (Fin True 0) = Infty False \<and>
   voigt sample_env (Fin False 3) (Fin False 0) (Fin True 0) = Fin False 0"
  using voigt_delta [of "Fin False 0" "Fin True 0" sample_env "Fin True 0"]
        voigt_delta [of "Fin False 0" "Fin True 0" sample_env "Fin False 3"]
  by simp

text \<open>
  NaN in the real part of the argument of \<^verbatim>\<open>cerf\<close> reaches both parts of the result off
  the real axis and the real part on it (given that \<^verbatim>\<open>erf\<close> maps NaN to NaN); NaN in
  the imaginary part reaches the imaginary part, and the real part too off the imaginary
  axis.  A NaN \<open>x\<close> reaches the result of the Lorentzian and of the Gaussian branch of
  \<^verbatim>\<open>voigt\<close>.
\<close>

lemma fmul_NaN_left [simp]: "fmul NaN a = NaN"
  by simp

lemma fdiv_NaN_right [simp]: "fdiv a NaN = NaN"
  by (cases a) auto

lemma cerf_nan_real_part:
  "cerf E (NaN, y) = (if is_zero y then (erf E NaN, y) else (NaN, NaN))"
  by (simp add: cerf_def cerf_disp_def pnfft_creal_def pnfft_cimag_def CNUM_def fge_def fgt_def)

lemma cerf_nan_imag_part:
  assumes "pnfft_exp E NaN = NaN"
  shows "cerf E (x, NaN) = (if is_zero x then x else NaN, NaN)"
  using assms
  by (simp add: cerf_def cerf_disp_def pnfft_creal_def pnfft_cimag_def CNUM_def fge_def fgt_def
      rc_sub_def rc_mul_def cr_sub_def Let_def)

lemma voigt_nan_lorentzian:
  assumes "is_zero sigma" and "\<not> is_zero gamma"
  shows "voigt E NaN sigma gamma = NaN"
proof -
  have "\<not> is_zero (if flt gamma (lit 0) then fneg gamma else gamma)"
    using assms(2) by simp
  then show ?thesis
    using assms(1) by (simp add: voigt_def voigt_disp_def Let_def)
qed

lemma voigt_nan_gaussian:
  assumes "\<not> is_zero sigma" and "is_zero gamma" and "pnfft_exp E NaN = NaN"
  shows "voigt E NaN sigma gamma = NaN"
  using assms by (simp add: voigt_def voigt_disp_def Let_def)

text \<open>
  C1.  NaN in an input is to reach the output.  In the delta branch of \<^verbatim>\<open>voigt\<close> it
  does not: the test \<^verbatim>\<open>x ? 0 : Inf\<close> takes NaN for a non-zero \<open>x\<close>, and
  \<^verbatim>\<open>voigt(NaN, 0, 0)\<close> is \<open>0\<close>.
\<close>

theorem voigt_nan_dropped:
  "voigt E NaN (Fin False 0) (Fin False 0) = Fin False 0"
  by (simp add: voigt_def voigt_disp_def)

text \<open>
  C6.  For every \<open>x\<close> and a zero \<open>y\<close> of either sign, \<^verbatim>\<open>cerf(x + iy)\<close> has the real
  part \<^verbatim>\<open>erf(x)\<close> and the imaginary part \<open>y\<close> itself, the zero with the sign it came with.
\<close>

theorem cerf_real_axis:
  assumes "is_zero y"
  shows "cerf E (x, y) = (erf E x, y)"
  using assms by (simp add: cerf_def cerf_disp_def pnfft_creal_def pnfft_cimag_def CNUM_def)

theorem cerf_real_axis_witness:
  "cerf sample_env (Fin False 2, Fin True 0) = (erf sample_env (Fin False 2), Fin True 0) \<and>
   cerf sample_env (NaN, Fin False 0) = (erf sample_env NaN, Fin False 0)"
  using cerf_real_axis [of "Fin True 0" sample_env "Fin False 2"]
        cerf_real_axis [of "Fin False 0" sample_env NaN]
  by simp

text \<open>
  C5.  Off both axes, when \<open>(y - x) * (x + y) < -750\<close>, \<^verbatim>\<open>cerf\<close> returns the real
  constant \<open>1\<close> for \<open>x \<ge> 0\<close> and \<open>-1\<close> for \<open>x < 0\<close>, with the imaginary part \<open>+0\<close>;
  one of the two cases holds, and no function of the environment (exponential, kernel)
  takes part in the value.
\<close>

theorem cerf_underflow:
  assumes "\<not> feq y (lit 0)" and "\<not> feq x (lit 0)"
    and "flt (fmul (fsub y x) (fadd x y)) (fneg (lit 750))"
  shows "(fge x (lit 0) \<longrightarrow> cerf E (x, y) = (Fin False 1, Fin False 0)) \<and>
         (flt x (lit 0) \<longrightarrow> cerf E (x, y) = (Fin True 1, Fin False 0)) \<and>
         (fge x (lit 0) \<or> flt x (lit 0))"
proof -
  have "\<not> is_nan x"
    using assms(3) by (cases x) auto
  then have "fge x (lit 0) \<or> flt x (lit 0)"
    by (simp add: fge_or_flt)
  moreover have "cerf E (x, y) = cmplx_of_R (if fge x (lit 0) then lit 1 else fneg (lit 1))"
    using assms by (simp add: cerf_def cerf_disp_def pnfft_creal_def pnfft_cimag_def)
  ultimately show ?thesis
    by (auto simp: cmplx_of_R_def dest: fge_flt_excl)
qed

theorem cerf_underflow_witness:
  "cerf sample_env (Fin False 30, Fin False 1) = (Fin False 1, Fin False 0) \<and>
   cerf sample_env (Fin True 30, Fin True 1) = (Fin True 1, Fin False 0)"
proof -
  have a: "\<not> feq (Fin False 1) (lit 0)" "\<not> feq (Fin False 30) (lit 0)"
      "flt (fmul (fsub (Fin False 1) (Fin False 30)) (fadd (Fin False 30) (Fin False 1)))
           (fneg (lit 750))"
      "fge (Fin False 30) (lit 0)"
    by (simp_all add: fsub_def fge_def round_eval)
  have b: "\<not> feq (Fin True 1) (lit 0)" "\<not> feq (Fin True 30) (lit 0)"
      "flt (fmul (fsub (Fin True 1) (Fin True 30)) (fadd (Fin True 30) (Fin True 1)))
           (fneg (lit 750))"
      "flt (Fin True 30) (lit 0)"
    by (simp_all add: fsub_def fge_def round_eval)
  from cerf_underflow [OF a(1,2,3), of sample_env] a(4)
       cerf_underflow [OF b(1,2,3), of sample_env] b(4)
  show ?thesis by blast
qed

text \<open>
  C7.  For \<open>x\<close> a zero of either sign and \<open>y\<close> NaN, \<^verbatim>\<open>cdawson\<close> returns \<open>x\<close> itself
  as the real part and NaN as the imaginary part, as soon as \<^verbatim>\<open>exp\<close> or \<^verbatim>\<open>erfcx\<close>
  maps NaN to NaN (one of the two is enough).  The return is the one of the branch
  \<^verbatim>\<open>x == 0\<close>.
\<close>

theorem cdawson_imag_nan:
  assumes "is_zero x" and "pnfft_exp E NaN = NaN \<or> erfcx E NaN = NaN"
  shows "cdawson E (x, NaN) = (x, NaN)"
  using assms
  by (auto simp: cdawson_def cdawson_disp_def pnfft_creal_def pnfft_cimag_def CNUM_def fge_def)

theorem cdawson_imag_nan_witness:
  "cdawson sample_env (Fin True 0, NaN) = (Fin True 0, NaN) \<and>
   cdawson sample_env (Fin False 0, NaN) = (Fin False 0, NaN)"
proof -
  have "pnfft_exp sample_env NaN = NaN \<or> erfcx sample_env NaN = NaN"
    by (simp add: sample_env_def)
  from cdawson_imag_nan [OF _ this, of "Fin True 0"] cdawson_imag_nan [OF _ this, of "Fin False 0"]
  show ?thesis by simp
qed

text \<open>
  C2.  Every dispatcher (\<^verbatim>\<open>cerf\<close>, \<^verbatim>\<open>cerfc\<close>, \<^verbatim>\<open>cdawson\<close>, \<^verbatim>\<open>voigt\<close>,
  \<^verbatim>\<open>erfi\<close>, \<^verbatim>\<open>dawson\<close>) is total: for every input, NaN and the infinities included,
  the condition of exactly one return statement holds, that return is the one the function
  reaches, and each part of the value it returns is of exactly one of the classes finite,
  infinite, NaN.
\<close>

theorem dispatchers_total:
  "(\<exists>!b. cerf_fires b z) \<and> cerf_fires (fst (cerf_disp E z)) z \<and>
     classified (fst (cerf E z)) \<and> classified (snd (cerf E z)) \<and>
   (\<exists>!b. cerfc_fires b z) \<and> cerfc_fires (fst (cerfc_disp E z)) z \<and>
     classified (fst (cerfc E z)) \<and> classified (snd (cerfc E z)) \<and>
   (\<exists>!b. cdawson_fires b z) \<and> cdawson_fires (fst (cdawson_disp E z)) z \<and>
     classified (fst (cdawson E z)) \<and> classified (snd (cdawson E z)) \<and>
   (\<exists>!b. voigt_fires b x sigma gamma) \<and>
     voigt_fires (fst (voigt_disp E x sigma gamma)) x sigma gamma \<and>
     classified (voigt E x sigma gamma) \<and>
   (\<exists>!b. erfi_fires b x) \<and> erfi_fires (fst (erfi_disp E x)) x \<and>
     classified (erfi E x) \<and>
   (\<exists>!b. dawson_fires b x) \<and> dawson_fires (fst (dawson_disp E x)) x \<and>
     classified (dawson E x)"
  by (simp add: cerf_fires_iff [where E = E] cerfc_fires_iff [where E = E]
      cdawson_fires_iff [where E = E] voigt_fires_iff [where E = E]
      erfi_fires_iff [where E = E] dawson_fires_iff [where E = E] classified_all)

theorem dispatchers_total_witness:
  "cerf_fires Cerf_underflow (Fin False 30, Fin False 1) \<and>
   cerfc_fires Cerfc_imag_axis (Fin False 0, NaN) \<and>
   cdawson_fires Cdawson_nan (Fin False 1, NaN) \<and>
   voigt_fires Voigt_delta NaN (Fin False 0) (Fin True 0) \<and>
   erfi_fires Erfi_saturated (Infty True) \<and>
   dawson_fires Dawson_kernel NaN"
proof -
  have "fst (cerf_disp sample_env (Fin False 30, Fin False 1)) = Cerf_underflow"
    by (simp add: cerf_disp_def pnfft_creal_def pnfft_cimag_def fsub_def num_eval)
  moreover have "fst (cerfc_disp sample_env (Fin False 0, NaN)) = Cerfc_imag_axis"
    by (simp add: cerfc_disp_def pnfft_creal_def pnfft_cimag_def)
  moreover have "fst (cdawson_disp sample_env (Fin False 1, NaN)) = Cdawson_nan"
    by (simp add: cdawson_disp_def pnfft_creal_def pnfft_cimag_def fge_def fgt_def)
  moreover have "fst (voigt_disp sample_env NaN (Fin False 0) (Fin True 0)) = Voigt_delta"
    by (simp add: voigt_disp_def)
  moreover have "fst (erfi_disp sample_env (Infty True)) = Erfi_saturated"
    by (simp add: erfi_disp_def fgt_def num_eval)
  moreover have "fst (dawson_disp sample_env NaN) = Dawson_kernel"
    by (simp add: dawson_disp_def)
  ultimately show ?thesis
    using dispatchers_total [of "(Fin False 30, Fin False 1)" sample_env NaN "Fin False 0" "Fin True 0"]
      dispatchers_total [of "(Fin False 0, NaN)" sample_env "Infty True" "Fin False 0" "Fin True 0"]
      dispatchers_total [of "(Fin False 1, NaN)" sample_env NaN "Fin False 0" "Fin True 0"]
    by metis
qed

text \<open>
  C3.  \<^verbatim>\<open>cdawson\<close> is odd, in every branch: for every \<open>z\<close>, \<^verbatim>\<open>cdawson(-z)\<close> and
  \<^verbatim>\<open>-cdawson(z)\<close> agree in both parts up to the sign of a zero (NaN taken as equal to
  NaN), and the return reached at \<open>-z\<close> is the one reached at \<open>z\<close>, with the two returns
  through \<^verbatim>\<open>w_of_z\<close> exchanged.  Where the code passes a signed zero through, the
  statement says which zero:

    \<^item> on the real axis, \<open>y\<close> a zero of either sign, both parts are the same value, signs of
      zeros included, and the imaginary part of \<^verbatim>\<open>cdawson(z)\<close> is \<open>-y\<close>;
    \<^item> on the imaginary axis, \<open>x\<close> a zero of either sign, the real parts are the same
      value, and the real part of \<^verbatim>\<open>cdawson(z)\<close> is the zero \<open>x\<close> itself;
    \<^item> in the returns that involve no difference of external values (the real axis, the
      series on the imaginary axis, both forms of the continued fraction, the NaN return)
      the two complex values are the same, signs of zeros included.

  A part of \<^verbatim>\<open>-cdawson(z)\<close> that is not NaN compares equal, with \<^verbatim>\<open>==\<close>, to the part
  of \<^verbatim>\<open>cdawson(-z)\<close>.  All this is so for an odd \<^verbatim>\<open>im_w_of_x\<close>, a \<^verbatim>\<open>cexp\<close> that does
  not look at the sign of a zero real part, and an \<^verbatim>\<open>exp\<close> or \<^verbatim>\<open>erfcx\<close> that maps
  NaN to NaN.
\<close>

theorem cdawson_odd:
  assumes odd: "\<forall>t. im_w_of_x E (fneg t) = fneg (im_w_of_x E t)"
    and cexp: "\<forall>v. pnfft_cexp E (Fin True 0, v) = pnfft_cexp E (Fin False 0, v)"
    and nan: "pnfft_exp E NaN = NaN \<or> erfcx E NaN = NaN"
  shows "ceqz (cdawson E (cneg z)) (cneg (cdawson E z)) \<and>
         (is_zero (snd z) \<longrightarrow> cdawson E (cneg z) = cneg (cdawson E z)) \<and>
         (is_zero (snd z) \<longrightarrow> snd (cdawson E z) = fneg (snd z)) \<and>
         (is_zero (fst z) \<longrightarrow> fst (cdawson E (cneg z)) = fneg (fst (cdawson E z))) \<and>
         (is_zero (fst z) \<and> \<not> is_zero (snd z) \<longrightarrow> fst (cdawson E z) = fst z) \<and>
         (fst (cdawson_disp E z) \<in>
            {Cdawson_real_axis, Cdawson_imag_taylor, Cdawson_cf_huge, Cdawson_cf, Cdawson_nan} \<longrightarrow>
          cdawson E (cneg z) = cneg (cdawson E z)) \<and>
         fst (cdawson_disp E (cneg z)) = cdawson_branch_mirror (fst (cdawson_disp E z)) \<and>
         (\<not> is_nan (fst (cdawson E z)) \<longrightarrow>
          feq (fst (cdawson E (cneg z))) (fneg (fst (cdawson E z)))) \<and>
         (\<not> is_nan (snd (cdawson E z)) \<longrightarrow>
          feq (snd (cdawson E (cneg z))) (fneg (snd (cdawson E z))))"
proof -
  obtain x y where z: "z = (x, y)" by (cases z)
  have axis: "cdawson E (fneg x, fneg y) = cneg (cdawson E (x, y))" if "is_zero y"
    using that odd by (simp add: cdawson_real_axis)
  have "ceqz (cdawson E (fneg x, fneg y)) (cneg (cdawson E (x, y)))"
  proof (cases "is_zero y")
    case True
    then show ?thesis using axis by simp
  next
    case y0: False
    show ?thesis
    proof (cases "is_zero x")
      case True
      show ?thesis
      proof (cases "is_nan y")
        case True
        then have "y = NaN" by (cases y) auto
        with nan \<open>is_zero x\<close> show ?thesis
          by (auto simp: cdawson_imag_axis ceqz_def fge_def)
      next
        case False
        have "negz (fsub (erfcx E y) (pnfft_exp E (fmul y y)))
                   (fsub (pnfft_exp E (fmul y y)) (erfcx E y))"
          by (rule fsub_swap)
        then have a: "negz (fmul spi2 (fsub (erfcx E y) (pnfft_exp E (fmul y y))))
                   (fmul spi2 (fsub (pnfft_exp E (fmul y y)) (erfcx E y)))"
          by (intro negz_fmul_r eqz_refl)
        have "negz (fsub (pnfft_exp E (fmul y y)) (erfcx E (fneg y)))
                   (fsub (erfcx E (fneg y)) (pnfft_exp E (fmul y y)))"
          by (rule fsub_swap)
        then have b: "negz (fmul spi2 (fsub (pnfft_exp E (fmul y y)) (erfcx E (fneg y))))
                   (fmul spi2 (fsub (erfcx E (fneg y)) (pnfft_exp E (fmul y y))))"
          by (intro negz_fmul_r eqz_refl)
        from a b show ?thesis
          using y0 True False
          by (simp add: cdawson_imag_axis ceqz_def fge_fneg_zero negz_def)
      qed
    next
      case x0: False
      show ?thesis
      proof (cases "is_nan y")
        case True
        then have "y = NaN" by (cases y) auto
        with x0 show ?thesis by (simp add: cdawson_nan_off_axis)
      next
        case ny: False
        show ?thesis
        proof (cases "fge y (lit 0)")
          case True
          then show ?thesis using odd cexp y0 x0 by (intro cdawson_odd_upper)
        next
          case False
          then have "fge (fneg y) (lit 0)" using ny y0 by (simp add: fge_fneg_zero)
          then have "ceqz (cdawson E (fneg (fneg x), fneg (fneg y))) (cneg (cdawson E (fneg x, fneg y)))"
            using odd cexp y0 x0 by (intro cdawson_odd_upper) simp_all
          then show ?thesis by (simp add: ceqz_flip)
        qed
      qed
    qed
  qed
  then have p1: "ceqz (cdawson E (cneg z)) (cneg (cdawson E z))"
    by (simp add: z)
  have p2: "is_zero (snd z) \<longrightarrow> cdawson E (cneg z) = cneg (cdawson E z)"
    using axis by (simp add: z)
  have p3: "is_zero (snd z) \<longrightarrow> snd (cdawson E z) = fneg (snd z)"
    by (simp add: z cdawson_real_axis)
  have p4: "is_zero (fst z) \<longrightarrow> fst (cdawson E (cneg z)) = fneg (fst (cdawson E z))"
  proof (cases "is_zero y")
    case True
    then show ?thesis using axis by (simp add: z cneg_def)
  next
    case False
    then show ?thesis by (simp add: z cdawson_imag_axis_real_part)
  qed
  have p5: "is_zero (fst z) \<and> \<not> is_zero (snd z) \<longrightarrow> fst (cdawson E z) = fst z"
    by (simp add: z cdawson_imag_axis_real_part)
  have p6: "fst (cdawson_disp E z) \<in>
      {Cdawson_real_axis, Cdawson_imag_taylor, Cdawson_cf_huge, Cdawson_cf, Cdawson_nan} \<longrightarrow>
      cdawson E (cneg z) = cneg (cdawson E z)"
  proof
    assume b: "fst (cdawson_disp E z) \<in>
      {Cdawson_real_axis, Cdawson_imag_taylor, Cdawson_cf_huge, Cdawson_cf, Cdawson_nan}"
    show "cdawson E (cneg z) = cneg (cdawson E z)"
    proof (cases "fst (cdawson_disp E z) = Cdawson_real_axis")
      case True
      then have "is_zero (snd z)" by (simp add: cdawson_real_axis_branch [of z E])
      with p2 show ?thesis by simp
    next
      case False
      with b have "fst (cdawson_disp E z) \<in>
          {Cdawson_imag_taylor, Cdawson_cf_huge, Cdawson_cf, Cdawson_nan}"
        by auto
      then show ?thesis by (rule cdawson_odd_exact)
    qed
  qed
  have p7: "fst (cdawson_disp E (cneg z)) = cdawson_branch_mirror (fst (cdawson_disp E z))"
    by (rule cdawson_branch_cneg)
  from p1 have e: "eqz (fst (cdawson E (cneg z))) (fneg (fst (cdawson E z)))"
      "eqz (snd (cdawson E (cneg z))) (fneg (snd (cdawson E z)))"
    by (simp_all add: ceqz_def cneg_def)
  have p8: "\<not> is_nan (fst (cdawson E z)) \<longrightarrow>
      feq (fst (cdawson E (cneg z))) (fneg (fst (cdawson E z)))"
    using eqz_feq [OF e(1)] by (simp add: is_nan_fneg)
  have p9: "\<not> is_nan (snd (cdawson E z)) \<longrightarrow>
      feq (snd (cdawson E (cneg z))) (fneg (snd (cdawson E z)))"
    using eqz_feq [OF e(2)] by (simp add: is_nan_fneg)
  show ?thesis
    by (intro conjI p1 p2 p3 p4 p5 p6 p7 p8 p9)
qed

theorem cdawson_odd_witness:
  "ceqz (cdawson sample_env (cneg (Fin False 1, Fin False 2)))
        (cneg (cdawson sample_env (Fin False 1, Fin False 2))) \<and>
   fst (cdawson_disp sample_env (cneg (Fin False 1, Fin False 2))) = Cdawson_mirror \<and>
   cdawson sample_env (cneg (Fin False 1, Fin True 0)) =
     cneg (cdawson sample_env (Fin False 1, Fin True 0)) \<and>
   snd (cdawson sample_env (Fin False 1, Fin True 0)) = Fin False 0 \<and>
   feq (snd (cdawson sample_env (cneg (Fin False 1, Fin True 0))))
       (fneg (snd (cdawson sample_env (Fin False 1, Fin True 0)))) \<and>
   fst (cdawson sample_env (cneg (Fin True 0, Fin False 2))) =
     fneg (fst (cdawson sample_env (Fin True 0, Fin False 2))) \<and>
   fst (cdawson sample_env (Fin True 0, Fin False 2)) = Fin True 0 \<and>
   feq (fst (cdawson sample_env (cneg (Fin True 0, Fin False 2))))
       (fneg (fst (cdawson sample_env (Fin True 0, Fin False 2)))) \<and>
   cdawson sample_env (cneg (lit 100, lit (1 / 2 ^ 16))) =
     cneg (cdawson sample_env (lit 100, lit (1 / 2 ^ 16)))"
proof -
  have a: "\<forall>t. im_w_of_x sample_env (fneg t) = fneg (im_w_of_x sample_env t)"
    by (simp add: sample_env_def)
  have b: "\<forall>v. pnfft_cexp sample_env (Fin True 0, v) = pnfft_cexp sample_env (Fin False 0, v)"
    by (simp add: sample_env_def)
  have c: "pnfft_exp sample_env NaN = NaN \<or> erfcx sample_env NaN = NaN"
    by (simp add: sample_env_def)
  have d: "fst (cdawson_disp sample_env (Fin False 1, Fin False 2)) = Cdawson_direct"
    by (simp add: cdawson_disp_def pnfft_creal_def pnfft_cimag_def fge_def fgt_def num_eval)
  from cdawson_odd [OF a b c, of "(Fin False 1, Fin False 2)"]
  have "ceqz (cdawson sample_env (cneg (Fin False 1, Fin False 2)))
          (cneg (cdawson sample_env (Fin False 1, Fin False 2))) \<and>
        fst (cdawson_disp sample_env (cneg (Fin False 1, Fin False 2))) =
          cdawson_branch_mirror (fst (cdawson_disp sample_env (Fin False 1, Fin False 2)))"
    by blast
  then have w1: "ceqz (cdawson sample_env (cneg (Fin False 1, Fin False 2)))
          (cneg (cdawson sample_env (Fin False 1, Fin False 2))) \<and>
        fst (cdawson_disp sample_env (cneg (Fin False 1, Fin False 2))) = Cdawson_mirror"
    unfolding d by simp
  have r: "is_zero (snd (Fin False 1, Fin True 0))"
      "\<not> is_nan (snd (cdawson sample_env (Fin False 1, Fin True 0)))"
    by (simp_all add: cdawson_real_axis)
  from cdawson_odd [OF a b c, of "(Fin False 1, Fin True 0)"] r
  have "cdawson sample_env (cneg (Fin False 1, Fin True 0)) =
          cneg (cdawson sample_env (Fin False 1, Fin True 0)) \<and>
        snd (cdawson sample_env (Fin False 1, Fin True 0)) = fneg (snd (Fin False 1, Fin True 0)) \<and>
        feq (snd (cdawson sample_env (cneg (Fin False 1, Fin True 0))))
            (fneg (snd (cdawson sample_env (Fin False 1, Fin True 0))))"
    by blast
  then have w2: "cdawson sample_env (cneg (Fin False 1, Fin True 0)) =
          cneg (cdawson sample_env (Fin False 1, Fin True 0)) \<and>
        snd (cdawson sample_env (Fin False 1, Fin True 0)) = Fin False 0 \<and>
        feq (snd (cdawson sample_env (cneg (Fin False 1, Fin True 0))))
            (fneg (snd (cdawson sample_env (Fin False 1, Fin True 0))))"
    unfolding snd_conv fneg.simps not_True_eq_False .
  have i: "is_zero (fst (Fin True 0, Fin False 2))"
      "\<not> is_zero (snd (Fin True 0, Fin False 2))"
      "\<not> is_nan (fst (cdawson sample_env (Fin True 0, Fin False 2)))"
    by (simp_all add: cdawson_imag_axis_real_part)
  from cdawson_odd [OF a b c, of "(Fin True 0, Fin False 2)"] i
  have "fst (cdawson sample_env (cneg (Fin True 0, Fin False 2))) =
          fneg (fst (cdawson sample_env (Fin True 0, Fin False 2))) \<and>
        fst (cdawson sample_env (Fin True 0, Fin False 2)) = fst (Fin True 0, Fin False 2) \<and>
        feq (fst (cdawson sample_env (cneg (Fin True 0, Fin False 2))))
            (fneg (fst (cdawson sample_env (Fin True 0, Fin False 2))))"
    by blast
  then have w3: "fst (cdawson sample_env (cneg (Fin True 0, Fin False 2))) =
          fneg (fst (cdawson sample_env (Fin True 0, Fin False 2))) \<and>
        fst (cdawson sample_env (Fin True 0, Fin False 2)) = Fin True 0 \<and>
        feq (fst (cdawson sample_env (cneg (Fin True 0, Fin False 2))))
            (fneg (fst (cdawson sample_env (Fin True 0, Fin False 2))))"
    unfolding fst_conv .
  have f: "fst (cdawson_disp sample_env (lit 100, lit (1 / 2 ^ 16))) \<in>
      {Cdawson_real_axis, Cdawson_imag_taylor, Cdawson_cf_huge, Cdawson_cf, Cdawson_nan}"
    unfolding cdawson_disp_100_2m16 by simp
  from cdawson_odd [OF a b c, of "(lit 100, lit (1 / 2 ^ 16))"] f
  have w4: "cdawson sample_env (cneg (lit 100, lit (1 / 2 ^ 16))) =
      cneg (cdawson sample_env (lit 100, lit (1 / 2 ^ 16)))"
    by blast
  from w1 w2 w3 w4 show ?thesis
    by (intro conjI) (elim conjE, assumption)+
qed



end
